theory Spec2Isabelle
  imports Main "HOL-Library.Multiset"
begin

section \<open>Python values and exceptions\<close>

text \<open>
  The repository holds two calendar platforms with the same methods:
  \<^verbatim>\<open>custom_components/min_renovasjon/calendar.py\<close> and
  \<^verbatim>\<open>custom_components/min_renovasjon_test/calendar.py\<close>. The first has no exception
  handler at all and hands naive datetimes to the host's event constructor; the second
  wraps every method body in \<^verbatim>\<open>try/except Exception\<close> and builds its events from
  \<^verbatim>\<open>as_utc(start_of_local_day(...))\<close>. Both are embedded here: a definition without a
  suffix is the method of \<^verbatim>\<open>min_renovasjon\<close>, a definition ending in \<open>_test\<close> is the
  method of \<^verbatim>\<open>min_renovasjon_test\<close>.

  An exception is a value: a method returns \<open>Inl e\<close> where the Python raises \<open>e\<close>.
  Only subclasses of \<^verbatim>\<open>Exception\<close> are modelled (what \<^verbatim>\<open>except Exception\<close> can catch).
\<close>

datatype error =
    ValueError
  | TypeError
  | IndexError
  | AttributeError
  | OverflowError
  | HomeAssistantError
  | OtherException

text \<open>
  A datetime is a count of microseconds. \<open>Naive w\<close> has no tzinfo and \<open>w\<close> is its
  wall-clock reading; \<open>Aware u\<close> has a tzinfo and is given by the instant \<open>u\<close> it denotes
  (its reading in UTC). Python's datetime has no leap seconds, so a calendar day is
  \<open>day_us\<close> microseconds of wall-clock time. Readings are counted from 1970-01-01.
\<close>

datatype datetime = Naive int | Aware int

text \<open>
  The values the upstream data source can hand over. \<open>PyDatetime w\<close> is a naive
  datetime with wall-clock reading \<open>w\<close> (the data model of the specification has plain
  dates, without a time zone); \<open>PySeq\<close> is a list or a tuple. A string is a list of code
  points below 256.
\<close>

datatype pyval =
    PyNone
  | PyInt int
  | PyStr string
  | PyDatetime int
  | PySeq "pyval list"

fun truthy :: "pyval \<Rightarrow> bool" where
  "truthy PyNone = False"
| "truthy (PyInt i) = (i \<noteq> 0)"
| "truthy (PyStr s) = (s \<noteq> [])"
| "truthy (PyDatetime w) = True"
| "truthy (PySeq xs) = (xs \<noteq> [])"

text \<open>\<^verbatim>\<open>iter(v)\<close>, run to its end: the elements, or TypeError when \<open>v\<close> is not iterable.\<close>

fun iterate :: "pyval \<Rightarrow> error + pyval list" where
  "iterate (PySeq xs) = Inr xs"
| "iterate (PyStr s) = Inr (map (\<lambda>c. PyStr [c]) s)"
| "iterate PyNone = Inl TypeError"
| "iterate (PyInt i) = Inl TypeError"
| "iterate (PyDatetime w) = Inl TypeError"

text \<open>
  \<^verbatim>\<open>fraction_id, fraction_name, _, pickup_date, next_pickup_date = entry\<close>:
  TypeError when the entry is not iterable, ValueError when it has not five elements.
\<close>

definition unpack5 :: "pyval \<Rightarrow> error + (pyval \<times> pyval \<times> pyval \<times> pyval \<times> pyval)" where
  "unpack5 entry =
     (case iterate entry of
        Inl e \<Rightarrow> Inl e
      | Inr [a, b, c, d, e] \<Rightarrow> Inr (a, b, c, d, e)
      | Inr _ \<Rightarrow> Inl ValueError)"

section \<open>Dates and time zones\<close>

definition day_us :: int where
  "day_us = 86400000000"

text \<open>\<^verbatim>\<open>.date()\<close> of a naive datetime: the number of its calendar day.\<close>

definition date :: "int \<Rightarrow> int" where
  "date w = w div day_us"

text \<open>\<^verbatim>\<open>.replace(hour=0, minute=0, second=0, microsecond=0)\<close> of a naive datetime.\<close>

definition replace_midnight :: "int \<Rightarrow> int" where
  "replace_midnight w = date w * day_us"

text \<open>
  The last day a datetime can hold, 9999-12-31, as a day number. \<^verbatim>\<open>d + timedelta(days=1)\<close>
  on a naive datetime of that day raises OverflowError; on any earlier day it is the same
  reading of the next day.
\<close>

definition max_day :: int where
  "max_day = 2932896"

definition add_day :: "int \<Rightarrow> error + int" where
  "add_day w = (if date w < max_day then Inr (w + 1 * day_us) else Inl OverflowError)"

text \<open>
  What the host and the interpreter supply: the UTC offset of the configured local time
  zone (\<^verbatim>\<open>DEFAULT_TIME_ZONE\<close>) at a local wall-clock reading, the naive reading of
  \<^verbatim>\<open>datetime.now()\<close>, the text an f-string puts for a value that is not a string, and
  what awaiting \<^verbatim>\<open>get_calendar_list()\<close> of a data source gives (a value, or an
  exception). The source reads the clock at every test of a date; the model has one
  reading for the whole call of a method, so a call does not run across midnight.
\<close>

record 'm env =
  utcoffset :: "int \<Rightarrow> int"
  now :: int
  format :: "pyval \<Rightarrow> string"
  get_calendar_list :: "'m \<Rightarrow> error + pyval"

text \<open>
  \<^verbatim>\<open>homeassistant.util.dt.as_utc\<close>: a datetime without tzinfo is taken to be in the local
  time zone; an aware one keeps its instant. The conversion is total here: with a UTC
  offset of less than a day it can leave the range of datetime only within a day of the
  first and the last instant of the calendar, and the local midnights this program
  converts lie between the day of the clock and 9999-12-31.
\<close>

fun as_utc :: "'m env \<Rightarrow> datetime \<Rightarrow> datetime" where
  "as_utc h (Naive w) = Aware (w - utcoffset h w)"
| "as_utc h (Aware u) = Aware u"

text \<open>
  \<^verbatim>\<open>homeassistant.util.dt.start_of_local_day\<close> of a naive datetime:
  \<^verbatim>\<open>datetime.combine(d.date(), time(), tzinfo=DEFAULT_TIME_ZONE)\<close>, the aware datetime
  whose local wall-clock reading is midnight of that date.
\<close>

definition start_of_local_day :: "'m env \<Rightarrow> int \<Rightarrow> datetime" where
  "start_of_local_day h w = Aware (date w * day_us - utcoffset h (date w * day_us))"

fun ticks :: "datetime \<Rightarrow> int" where
  "ticks (Naive w) = w"
| "ticks (Aware u) = u"

fun is_naive :: "datetime \<Rightarrow> bool" where
  "is_naive (Naive w) = True"
| "is_naive (Aware u) = False"

text \<open>\<^verbatim>\<open>a >= b\<close> and \<^verbatim>\<open>a < b\<close> on datetimes: TypeError between a naive and an aware one.\<close>

fun dt_ge :: "datetime \<Rightarrow> datetime \<Rightarrow> error + bool" where
  "dt_ge (Naive a) (Naive b) = Inr (a \<ge> b)"
| "dt_ge (Aware a) (Aware b) = Inr (a \<ge> b)"
| "dt_ge (Naive a) (Aware b) = Inl TypeError"
| "dt_ge (Aware a) (Naive b) = Inl TypeError"

fun dt_lt :: "datetime \<Rightarrow> datetime \<Rightarrow> error + bool" where
  "dt_lt (Naive a) (Naive b) = Inr (a < b)"
| "dt_lt (Aware a) (Aware b) = Inr (a < b)"
| "dt_lt (Naive a) (Aware b) = Inl TypeError"
| "dt_lt (Aware a) (Naive b) = Inl TypeError"

section \<open>Calendar events and the entity\<close>

record calendar_event =
  summary :: string
  start :: datetime
  end' :: datetime
  description :: string

text \<open>
  The constructor \<^verbatim>\<open>CalendarEvent(summary=..., start=..., end=..., description=...)\<close> of
  \<^verbatim>\<open>homeassistant.components.calendar\<close>. It is code of the host, not of this repository,
  and it validates what it is given: it raises HomeAssistantError when a datetime has no
  time zone (\<^verbatim>\<open>Expected all values to have a timezone\<close>) and when the end is before the
  start.
\<close>

definition CalendarEvent :: "string \<Rightarrow> datetime \<Rightarrow> datetime \<Rightarrow> string \<Rightarrow> error + calendar_event" where
  "CalendarEvent summary_arg start_arg end_arg description_arg =
     (if is_naive start_arg \<or> is_naive end_arg then Inl HomeAssistantError
      else if ticks end_arg < ticks start_arg then Inl HomeAssistantError
      else Inr \<lparr>summary = summary_arg, start = start_arg, end' = end_arg,
                description = description_arg\<rparr>)"

record ('h, 'm) entity =
  hass :: 'h
  min_renovasjon :: 'm
  name :: string
  events :: "calendar_event list"
  config_entry :: string

text \<open>The text of \<^verbatim>\<open>{fraction_name}\<close> in an f-string.\<close>

definition fstr :: "'m env \<Rightarrow> pyval \<Rightarrow> string" where
  "fstr h v = (case v of PyStr s \<Rightarrow> s | _ \<Rightarrow> format h v)"

text \<open>
  The two literals of the f-strings; their second letter, the code point U+00F8, is
  \<open>CHR 0xF8\<close>.
\<close>

definition event_summary :: "'m env \<Rightarrow> pyval \<Rightarrow> string" where
  "event_summary h fraction_name = fstr h fraction_name @ '' t'' @ [CHR 0xF8] @ ''mming''"

definition event_description :: "'m env \<Rightarrow> pyval \<Rightarrow> string" where
  "event_description h fraction_name = ''T'' @ [CHR 0xF8] @ ''mming av '' @ fstr h fraction_name"

text \<open>
  \<^verbatim>\<open>events.sort(key=lambda x: x.start)\<close>: a stable sort by the start; comparing a naive
  start with an aware one raises TypeError, and a list that holds both cannot be sorted
  without such a comparison.
\<close>

definition sort_by_start :: "calendar_event list \<Rightarrow> error + calendar_event list" where
  "sort_by_start evs =
     (if (\<exists>a \<in> set evs. is_naive (start a)) \<and> (\<exists>b \<in> set evs. \<not> is_naive (start b))
      then Inl TypeError
      else Inr (sort_key (\<lambda>x. ticks (start x)) evs))"

section \<open>Component min\_renovasjon\<close>

text \<open>
  One of the two \<^verbatim>\<open>if\<close> blocks of the loop body of \<^verbatim>\<open>_fetch_events\<close> (they are the same
  code, once on \<^verbatim>\<open>pickup_date\<close> and once on \<^verbatim>\<open>next_pickup_date\<close>): the list of events
  after the block, or the exception it raises. A value that is not a datetime has no
  attribute \<^verbatim>\<open>date\<close>. The start and the end are naive here, as \<^verbatim>\<open>pickup_date\<close> is,
  so the constructor raises whenever the block reaches it.
\<close>

definition pickup_event ::
  "'m env \<Rightarrow> pyval \<Rightarrow> pyval \<Rightarrow> calendar_event list \<Rightarrow> error + calendar_event list" where
  "pickup_event h fraction_name pickup_date evs =
     (if \<not> truthy pickup_date then Inr evs
      else case pickup_date of
        PyDatetime w \<Rightarrow>
          if date w \<ge> date (now h) then
            (let event_start = replace_midnight w
             in case add_day event_start of
                  Inl e \<Rightarrow> Inl e
                | Inr event_end \<Rightarrow>
                    (case CalendarEvent (event_summary h fraction_name)
                            (Naive event_start) (Naive event_end)
                            (event_description h fraction_name) of
                       Inl e \<Rightarrow> Inl e
                     | Inr event \<Rightarrow> Inr (evs @ [event])))
          else Inr evs
      | _ \<Rightarrow> Inl AttributeError)"

text \<open>The loop body after the test for None: the events so far, and the exception if one is raised.\<close>

definition process_entry ::
  "'m env \<Rightarrow> calendar_event list \<Rightarrow> pyval \<Rightarrow> calendar_event list \<times> error option" where
  "process_entry h evs entry =
     (case unpack5 entry of
        Inl e \<Rightarrow> (evs, Some e)
      | Inr (fraction_id, fraction_name, unused, pickup_date, next_pickup_date) \<Rightarrow>
          (case pickup_event h fraction_name pickup_date evs of
             Inl e \<Rightarrow> (evs, Some e)
           | Inr evs1 \<Rightarrow>
               (case pickup_event h fraction_name next_pickup_date evs1 of
                  Inl e \<Rightarrow> (evs1, Some e)
                | Inr evs2 \<Rightarrow> (evs2, None))))"

fun entries_loop ::
  "'m env \<Rightarrow> calendar_event list \<Rightarrow> pyval list \<Rightarrow> error + calendar_event list" where
  "entries_loop h evs [] = Inr evs"
| "entries_loop h evs (entry # rest) =
     (if entry = PyNone then entries_loop h evs rest
      else case process_entry h evs entry of
        (evs', None) \<Rightarrow> entries_loop h evs' rest
      | (evs', Some e) \<Rightarrow> Inl e)"

definition fetch_events :: "'m env \<Rightarrow> ('h, 'm) entity \<Rightarrow> error + calendar_event list" where
  "fetch_events h self =
     (case get_calendar_list h (min_renovasjon self) of
        Inl e \<Rightarrow> Inl e
      | Inr calendar_list \<Rightarrow>
          (case (if truthy calendar_list
                 then (case iterate calendar_list of
                         Inl e \<Rightarrow> Inl e
                       | Inr entries \<Rightarrow> entries_loop h [] entries)
                 else Inr []) of
             Inl e \<Rightarrow> Inl e
           | Inr evs \<Rightarrow> sort_by_start evs))"

text \<open>
  The condition of the list comprehension of \<^verbatim>\<open>async_get_events\<close>. Every comparand is a
  result of \<open>as_utc\<close>, hence aware, so the comparisons are between instants and cannot raise.
\<close>

definition in_range :: "'m env \<Rightarrow> datetime \<Rightarrow> datetime \<Rightarrow> calendar_event \<Rightarrow> bool" where
  "in_range h start_date end_date event =
     (ticks start_date \<le> ticks (as_utc h (start event)) \<and> ticks (as_utc h (start event)) \<le> ticks end_date
      \<or> ticks start_date \<le> ticks (as_utc h (end' event)) \<and> ticks (as_utc h (end' event)) \<le> ticks end_date
      \<or> (ticks (as_utc h (start event)) \<le> ticks start_date \<and> ticks end_date \<le> ticks (as_utc h (end' event))))"

text \<open>
  A method returns its result (or the exception it raises) and the entity as it is
  afterwards. In \<^verbatim>\<open>async_get_events\<close> and \<^verbatim>\<open>async_update\<close> the only assignment to a field
  comes after \<^verbatim>\<open>_fetch_events\<close> has returned.
\<close>

definition async_get_events ::
  "'m env \<Rightarrow> ('h, 'm) entity \<Rightarrow> datetime \<Rightarrow> datetime
     \<Rightarrow> (error + calendar_event list) \<times> ('h, 'm) entity" where
  "async_get_events h self start_date end_date =
     (let start_date = as_utc h start_date;
          end_date = as_utc h end_date
      in case fetch_events h self of
           Inl e \<Rightarrow> (Inl e, self)
         | Inr evs \<Rightarrow>
             (let self' = self\<lparr>events := evs\<rparr>
              in (Inr (filter (in_range h start_date end_date) (events self')), self')))"

definition async_update :: "'m env \<Rightarrow> ('h, 'm) entity \<Rightarrow> (error + unit) \<times> ('h, 'm) entity" where
  "async_update h self =
     (case fetch_events h self of
        Inl e \<Rightarrow> (Inl e, self)
      | Inr evs \<Rightarrow> (Inr (), self\<lparr>events := evs\<rparr>))"

text \<open>\<^verbatim>\<open>[event for event in self._events if event.start >= now]\<close>\<close>

fun future_events :: "datetime \<Rightarrow> calendar_event list \<Rightarrow> error + calendar_event list" where
  "future_events now_dt [] = Inr []"
| "future_events now_dt (event # rest) =
     (case dt_ge (start event) now_dt of
        Inl e \<Rightarrow> Inl e
      | Inr b \<Rightarrow>
          (case future_events now_dt rest of
             Inl e \<Rightarrow> Inl e
           | Inr r \<Rightarrow> Inr (if b then event # r else r)))"

text \<open>
  \<^verbatim>\<open>min(xs, key=lambda x: x.start)\<close> on a list that is not empty: the running minimum is
  replaced only by an element whose key is strictly smaller.
\<close>

fun min_by_start :: "calendar_event \<Rightarrow> calendar_event list \<Rightarrow> error + calendar_event" where
  "min_by_start best [] = Inr best"
| "min_by_start best (event # rest) =
     (case dt_lt (start event) (start best) of
        Inl e \<Rightarrow> Inl e
      | Inr b \<Rightarrow> min_by_start (if b then event else best) rest)"

definition select_next :: "datetime \<Rightarrow> calendar_event list \<Rightarrow> error + calendar_event option" where
  "select_next now_dt evs =
     (case future_events now_dt evs of
        Inl e \<Rightarrow> Inl e
      | Inr [] \<Rightarrow> Inr None
      | Inr (x # xs) \<Rightarrow>
          (case min_by_start x xs of Inl e \<Rightarrow> Inl e | Inr m \<Rightarrow> Inr (Some m)))"

definition get_next_event ::
  "'m env \<Rightarrow> ('h, 'm) entity \<Rightarrow> (error + calendar_event option) \<times> ('h, 'm) entity" where
  "get_next_event h self = (select_next (Naive (now h)) (events self), self)"

section \<open>Component min\_renovasjon\_test\<close>

text \<open>
  The same block in \<^verbatim>\<open>min_renovasjon_test\<close>. \<^verbatim>\<open>pickup_date + timedelta(days=1)\<close> is
  evaluated after the start and before the constructor is called.
\<close>

definition pickup_event_test ::
  "'m env \<Rightarrow> pyval \<Rightarrow> pyval \<Rightarrow> calendar_event list \<Rightarrow> error + calendar_event list" where
  "pickup_event_test h fraction_name pickup_date evs =
     (if \<not> truthy pickup_date then Inr evs
      else case pickup_date of
        PyDatetime w \<Rightarrow>
          if date w \<ge> date (now h) then
            (let event_start = as_utc h (start_of_local_day h w)
             in case add_day w of
                  Inl e \<Rightarrow> Inl e
                | Inr next_day \<Rightarrow>
                    (let event_end = as_utc h (start_of_local_day h next_day)
                     in case CalendarEvent (event_summary h fraction_name)
                               event_start event_end
                               (event_description h fraction_name) of
                          Inl e \<Rightarrow> Inl e
                        | Inr event \<Rightarrow> Inr (evs @ [event])))
          else Inr evs
      | _ \<Rightarrow> Inl AttributeError)"

definition process_entry_test ::
  "'m env \<Rightarrow> calendar_event list \<Rightarrow> pyval \<Rightarrow> calendar_event list \<times> error option" where
  "process_entry_test h evs entry =
     (case unpack5 entry of
        Inl e \<Rightarrow> (evs, Some e)
      | Inr (fraction_id, fraction_name, unused, pickup_date, next_pickup_date) \<Rightarrow>
          (case pickup_event_test h fraction_name pickup_date evs of
             Inl e \<Rightarrow> (evs, Some e)
           | Inr evs1 \<Rightarrow>
               (case pickup_event_test h fraction_name next_pickup_date evs1 of
                  Inl e \<Rightarrow> (evs1, Some e)
                | Inr evs2 \<Rightarrow> (evs2, None))))"

text \<open>
  The loop with its inner handler: \<^verbatim>\<open>except (ValueError, TypeError, IndexError)\<close> logs
  and goes on with the next entry; any other exception leaves the loop.
\<close>

fun entries_loop_test ::
  "'m env \<Rightarrow> calendar_event list \<Rightarrow> pyval list \<Rightarrow> error + calendar_event list" where
  "entries_loop_test h evs [] = Inr evs"
| "entries_loop_test h evs (entry # rest) =
     (if entry = PyNone then entries_loop_test h evs rest
      else case process_entry_test h evs entry of
        (evs', None) \<Rightarrow> entries_loop_test h evs' rest
      | (evs', Some e) \<Rightarrow>
          if e = ValueError \<or> e = TypeError \<or> e = IndexError
          then entries_loop_test h evs' rest
          else Inl e)"

text \<open>The body of the outer \<^verbatim>\<open>try\<close> of \<^verbatim>\<open>_fetch_events\<close>.\<close>

definition fetch_events_try :: "'m env \<Rightarrow> ('h, 'm) entity \<Rightarrow> error + calendar_event list" where
  "fetch_events_try h self =
     (case get_calendar_list h (min_renovasjon self) of
        Inl e \<Rightarrow> Inl e
      | Inr calendar_list \<Rightarrow>
          (case (if truthy calendar_list
                 then (case iterate calendar_list of
                         Inl e \<Rightarrow> Inl e
                       | Inr entries \<Rightarrow> entries_loop_test h [] entries)
                 else Inr []) of
             Inl e \<Rightarrow> Inl e
           | Inr evs \<Rightarrow> sort_by_start evs))"

definition fetch_events_test :: "'m env \<Rightarrow> ('h, 'm) entity \<Rightarrow> error + calendar_event list" where
  "fetch_events_test h self =
     (case fetch_events_try h self of
        Inl e \<Rightarrow> Inr []
      | Inr evs \<Rightarrow> Inr evs)"

definition async_get_events_test ::
  "'m env \<Rightarrow> ('h, 'm) entity \<Rightarrow> datetime \<Rightarrow> datetime
     \<Rightarrow> (error + calendar_event list) \<times> ('h, 'm) entity" where
  "async_get_events_test h self start_date end_date =
     (let start_date = as_utc h start_date;
          end_date = as_utc h end_date
      in case fetch_events_test h self of
           Inl e \<Rightarrow> (Inr [], self)
         | Inr evs \<Rightarrow>
             (let self' = self\<lparr>events := evs\<rparr>
              in (Inr (filter (in_range h start_date end_date) (events self')), self')))"

definition async_update_test :: "'m env \<Rightarrow> ('h, 'm) entity \<Rightarrow> (error + unit) \<times> ('h, 'm) entity" where
  "async_update_test h self =
     (case fetch_events_test h self of
        Inl e \<Rightarrow> (Inr (), self\<lparr>events := []\<rparr>)
      | Inr evs \<Rightarrow> (Inr (), self\<lparr>events := evs\<rparr>))"

definition get_next_event_test ::
  "'m env \<Rightarrow> ('h, 'm) entity \<Rightarrow> (error + calendar_event option) \<times> ('h, 'm) entity" where
  "get_next_event_test h self =
     (let now_dt = as_utc h (Naive (now h))
      in case select_next now_dt (events self) of
           Inl e \<Rightarrow> (Inr None, self)
         | Inr r \<Rightarrow> (Inr r, self))"

section \<open>The properties, in the words of the specification\<close>

text \<open>A date field as the data model has it: absent, or a date.\<close>

fun date_field :: "pyval \<Rightarrow> bool" where
  "date_field PyNone = True"
| "date_field (PyDatetime w) = True"
| "date_field (PyInt i) = False"
| "date_field (PyStr s) = False"
| "date_field (PySeq xs) = False"

text \<open>A pickup entry as the data model has it: five fields, the last two date fields.\<close>

fun well_formed :: "pyval \<Rightarrow> bool" where
  "well_formed (PySeq [fraction_id, fraction_name, unused, pickup_date, next_pickup_date]) =
     (date_field pickup_date \<and> date_field next_pickup_date)"
| "well_formed v = False"

text \<open>
  The event of one pickup date. \<open>day_event_test\<close> is the event \<^verbatim>\<open>min_renovasjon_test\<close>
  builds: from the instant of local midnight to the instant of the next local midnight.
  \<open>day_event\<close> is the record of the two naive readings that \<^verbatim>\<open>min_renovasjon\<close> asks the
  constructor for; the constructor never returns it.
\<close>

definition day_event :: "'m env \<Rightarrow> pyval \<Rightarrow> int \<Rightarrow> calendar_event" where
  "day_event h fraction_name w =
     \<lparr>summary = event_summary h fraction_name,
      start = Naive (date w * day_us),
      end' = Naive (date w * day_us + day_us),
      description = event_description h fraction_name\<rparr>"

definition day_event_test :: "'m env \<Rightarrow> pyval \<Rightarrow> int \<Rightarrow> calendar_event" where
  "day_event_test h fraction_name w =
     \<lparr>summary = event_summary h fraction_name,
      start = Aware (date w * day_us - utcoffset h (date w * day_us)),
      end' = Aware (date w * day_us + day_us - utcoffset h (date w * day_us + day_us)),
      description = event_description h fraction_name\<rparr>"

text \<open>
  What the specification asks of one date field: one event when the date is present and
  not before today, none when it is before today or absent.
\<close>

definition field_events ::
  "(pyval \<Rightarrow> int \<Rightarrow> calendar_event) \<Rightarrow> int \<Rightarrow> pyval \<Rightarrow> pyval \<Rightarrow> calendar_event list" where
  "field_events mk today fraction_name d =
     (case d of
        PyDatetime w \<Rightarrow> if today \<le> date w then [mk fraction_name w] else []
      | _ \<Rightarrow> [])"

fun entry_events ::
  "(pyval \<Rightarrow> int \<Rightarrow> calendar_event) \<Rightarrow> int \<Rightarrow> pyval \<Rightarrow> calendar_event list" where
  "entry_events mk today (PySeq [fraction_id, fraction_name, unused, pickup_date, next_pickup_date]) =
     field_events mk today fraction_name pickup_date @
     field_events mk today fraction_name next_pickup_date"
| "entry_events mk today v = []"

text \<open>
  A date field, and a pickup entry, that leaves room for the day after: every date in it is
  earlier than 9999-12-31.
\<close>

fun before_last_day :: "pyval \<Rightarrow> bool" where
  "before_last_day (PyDatetime w) = (date w < max_day)"
| "before_last_day v = True"

fun dates_before_last_day :: "pyval \<Rightarrow> bool" where
  "dates_before_last_day (PySeq [fraction_id, fraction_name, unused, pickup_date, next_pickup_date]) =
     (before_last_day pickup_date \<and> before_last_day next_pickup_date)"
| "dates_before_last_day v = True"

text \<open>
  An assumption on the local time zone: a local midnight is never a later instant than the
  next local midnight, that is, the UTC offset never jumps forward by more than a day. It
  holds in every zone of the tz database; without it the constructor would reject an event
  for ending before its start.
\<close>

definition midnights_in_order :: "'m env \<Rightarrow> bool" where
  "midnights_in_order h =
     (\<forall>a. a * day_us - utcoffset h (a * day_us)
            \<le> (a + 1) * day_us - utcoffset h ((a + 1) * day_us))"

text \<open>The instant of a datetime, as \<open>as_utc\<close> normalises it.\<close>

definition instant :: "'m env \<Rightarrow> datetime \<Rightarrow> int" where
  "instant h d = ticks (as_utc h d)"

text \<open>
  The inclusion rule of the range filter in the specification's words: the event's start
  falls within the range, or its end does, or the event contains the range.
\<close>

definition included :: "'m env \<Rightarrow> datetime \<Rightarrow> datetime \<Rightarrow> calendar_event \<Rightarrow> bool" where
  "included h start_date end_date event =
     ((instant h start_date \<le> instant h (start event) \<and> instant h (start event) \<le> instant h end_date)
      \<or> (instant h start_date \<le> instant h (end' event) \<and> instant h (end' event) \<le> instant h end_date)
      \<or> (instant h (start event) \<le> instant h start_date \<and> instant h end_date \<le> instant h (end' event)))"

text \<open>
  The answer of the next-event selector in the specification's words, for a current
  reading \<open>t\<close>: nothing when no event starts at or after \<open>t\<close>, and otherwise one of the
  events that start at or after \<open>t\<close>, none of which starts earlier than it.
\<close>

definition is_next :: "int \<Rightarrow> calendar_event list \<Rightarrow> calendar_event option \<Rightarrow> bool" where
  "is_next t evs r =
     (case r of
        None \<Rightarrow> (\<forall>e \<in> set evs. ticks (start e) < t)
      | Some m \<Rightarrow>
          m \<in> set evs \<and> t \<le> ticks (start m)
          \<and> (\<forall>e \<in> set evs. t \<le> ticks (start e) \<longrightarrow> ticks (start m) \<le> ticks (start e)))"

section \<open>A concrete household\<close>

text \<open>
  Days and microseconds are counted from 1970-01-01: day 19875 is 2024-06-01, day 19883
  is 2024-06-09, day 19884 is 2024-06-10, day 19898 is 2024-06-24, day 2932896 is
  9999-12-31. The local time zone is two hours ahead of UTC, and it is ten in the morning
  of 2024-06-09.
\<close>

definition plastic :: pyval where
  "plastic = PySeq [PyStr ''plastic'', PyStr ''Plastic'', PyStr [],
                    PyDatetime (19884 * 86400000000), PyDatetime (19898 * 86400000000)]"

definition paper_twice :: pyval where
  "paper_twice = PySeq [PyStr ''paper'', PyStr ''Papir'', PyStr [],
                        PyDatetime (19884 * 86400000000),
                        PyDatetime (19884 * 86400000000 + 3600000000)]"

definition old_glass :: pyval where
  "old_glass = PySeq [PyStr ''glass'', PyStr ''Glass'', PyStr [],
                      PyDatetime (19875 * 86400000000), PyNone]"

definition last_paper :: pyval where
  "last_paper = PySeq [PyStr ''paper'', PyStr ''Papir'', PyStr [],
                       PyDatetime (2932896 * 86400000000), PyDatetime (2932896 * 86400000000)]"

definition oslo :: "(error + pyval) env" where
  "oslo = \<lparr>utcoffset = (\<lambda>w. 7200000000),
           now = 19883 * 86400000000 + 36000000000,
           format = (\<lambda>v. ''?''),
           get_calendar_list = (\<lambda>m. m)\<rparr>"

definition house :: "pyval list \<Rightarrow> (unit, error + pyval) entity" where
  "house entries =
     \<lparr>hass = (), min_renovasjon = Inr (PySeq entries), name = ''Min Renovasjon'',
      events = [], config_entry = ''abc''\<rparr>"

definition broken_house :: "(unit, error + pyval) entity" where
  "broken_house =
     \<lparr>hass = (), min_renovasjon = Inl OtherException, name = ''Min Renovasjon'',
      events = [], config_entry = ''abc''\<rparr>"

section \<open>The builders on a pickup list of the data model\<close>

lemma day_us_pos: "0 < day_us"
  by (simp add: day_us_def)

lemma date_plus_day: "date (w + day_us) = date w + 1"
  using day_us_pos by (simp add: date_def div_add_self2)

lemma CalendarEvent_aware:
  "u \<le> v \<Longrightarrow>
   CalendarEvent s (Aware u) (Aware v) d = Inr \<lparr>summary = s, start = Aware u, end' = Aware v, description = d\<rparr>"
  by (simp add: CalendarEvent_def)

lemma CalendarEvent_naive: "CalendarEvent s (Naive u) e d = Inl HomeAssistantError"
  by (simp add: CalendarEvent_def)

lemma CalendarEvent_returns:
  "CalendarEvent s a b d = Inr ev \<Longrightarrow>
   ev = \<lparr>summary = s, start = a, end' = b, description = d\<rparr> \<and> \<not> is_naive a \<and> \<not> is_naive b"
  by (auto simp: CalendarEvent_def split: if_splits)

lemma midnights_in_orderD:
  "midnights_in_order h \<Longrightarrow>
   date w * day_us - utcoffset h (date w * day_us)
     \<le> date w * day_us + day_us - utcoffset h (date w * day_us + day_us)"
proof -
  assume "midnights_in_order h"
  then have "date w * day_us - utcoffset h (date w * day_us)
     \<le> (date w + 1) * day_us - utcoffset h ((date w + 1) * day_us)"
    unfolding midnights_in_order_def by blast
  then show ?thesis by (simp add: algebra_simps)
qed

lemma pickup_event_test_due:
  assumes "midnights_in_order h" and "date (now h) \<le> date w" and "date w < max_day"
  shows "pickup_event_test h n (PyDatetime w) evs = Inr (evs @ [day_event_test h n w])"
proof -
  have e: "start_of_local_day h (w + day_us)
             = Aware (date w * day_us + day_us - utcoffset h (date w * day_us + day_us))"
  proof -
    have "date (w + day_us) * day_us = date w * day_us + day_us"
      by (simp add: date_plus_day distrib_right)
    then show ?thesis by (simp add: start_of_local_day_def)
  qed
  have c: "CalendarEvent (event_summary h n)
             (Aware (date w * day_us - utcoffset h (date w * day_us)))
             (Aware (date w * day_us + day_us - utcoffset h (date w * day_us + day_us)))
             (event_description h n) = Inr (day_event_test h n w)"
    unfolding day_event_test_def
    by (rule CalendarEvent_aware) (rule midnights_in_orderD[OF assms(1)])
  have e0: "start_of_local_day h w = Aware (date w * day_us - utcoffset h (date w * day_us))"
    by (simp add: start_of_local_day_def)
  show ?thesis
    using assms(2,3) c
    by (simp add: pickup_event_test_def add_day_def e e0)
qed

lemma pickup_event_test_field:
  assumes "midnights_in_order h" and "date_field d" and "before_last_day d"
  shows "pickup_event_test h n d evs = Inr (evs @ field_events (day_event_test h) (date (now h)) n d)"
proof (cases d)
  case (PyDatetime w)
  show ?thesis
  proof (cases "date (now h) \<le> date w")
    case True
    with assms PyDatetime show ?thesis
      by (simp add: pickup_event_test_due field_events_def)
  next
    case False
    with PyDatetime show ?thesis
      by (simp add: pickup_event_test_def field_events_def)
  qed
qed (use assms in \<open>simp_all add: pickup_event_test_def field_events_def\<close>)

lemma well_formed_cases:
  assumes "well_formed e"
  obtains a b c p n where "e = PySeq [a, b, c, p, n]" "date_field p" "date_field n"
  using assms by (cases e rule: well_formed.cases) auto

lemma process_entry_test_wf:
  assumes "midnights_in_order h" and "well_formed e" and "dates_before_last_day e"
  shows "process_entry_test h evs e = (evs @ entry_events (day_event_test h) (date (now h)) e, None)"
proof -
  from assms(2) obtain a b c p n where e: "e = PySeq [a, b, c, p, n]" "date_field p" "date_field n"
    by (rule well_formed_cases)
  from assms(3) e(1) have l: "before_last_day p" "before_last_day n" by simp_all
  show ?thesis
    by (simp add: e(1) process_entry_test_def unpack5_def
          pickup_event_test_field[OF assms(1) e(2) l(1)]
          pickup_event_test_field[OF assms(1) e(3) l(2)])
qed

lemma entries_loop_test_wf:
  assumes "midnights_in_order h"
  shows "\<forall>e \<in> set entries. e = PyNone \<or> well_formed e \<and> dates_before_last_day e \<Longrightarrow>
   entries_loop_test h evs entries =
     Inr (evs @ concat (map (entry_events (day_event_test h) (date (now h))) entries))"
proof (induction entries arbitrary: evs)
  case Nil
  then show ?case by simp
next
  case (Cons e es)
  then show ?case by (auto simp: process_entry_test_wf[OF assms])
qed

section \<open>The shape of every built event\<close>

lemma sort_by_start_aware:
  "\<forall>e \<in> set evs. \<not> is_naive (start e) \<Longrightarrow>
   sort_by_start evs = Inr (sort_key (\<lambda>x. ticks (start x)) evs)"
  by (auto simp: sort_by_start_def)

lemma sort_by_start_set:
  "sort_by_start evs = Inr r \<Longrightarrow> mset r = mset evs \<and> sorted (map (\<lambda>x. ticks (start x)) r)"
  by (auto simp: sort_by_start_def split: if_splits)

lemma pickup_event_test_one:
  assumes "pickup_event_test h n d evs = Inr r"
  shows "\<exists>extra. r = evs @ extra \<and> (\<forall>ev \<in> set extra. \<exists>w. ev = day_event_test h n w)"
proof (cases d)
  case (PyDatetime w)
  show ?thesis
  proof (cases "date (now h) \<le> date w")
    case False
    with assms PyDatetime show ?thesis by (simp add: pickup_event_test_def)
  next
    case True
    with assms PyDatetime obtain ev where
      c: "CalendarEvent (event_summary h n) (as_utc h (start_of_local_day h w))
            (as_utc h (start_of_local_day h (w + day_us))) (event_description h n) = Inr ev"
      and r: "r = evs @ [ev]"
      by (auto simp: pickup_event_test_def add_day_def split: if_splits sum.splits)
    have "date (w + day_us) * day_us = date w * day_us + day_us"
      by (simp add: date_plus_day distrib_right)
    with CalendarEvent_returns[OF c] have "ev = day_event_test h n w"
      by (simp add: day_event_test_def start_of_local_day_def)
    with r have "r = evs @ [day_event_test h n w]
        \<and> (\<forall>ev \<in> set [day_event_test h n w]. \<exists>w. ev = day_event_test h n w)"
      by auto
    then show ?thesis by blast
  qed
qed (use assms in \<open>auto simp: pickup_event_test_def split: if_splits\<close>)

lemma pickup_event_test_shape:
  assumes "pickup_event_test h n d evs = Inr r"
  shows "\<exists>extra. r = evs @ extra \<and> (\<forall>ev \<in> set extra. \<exists>n w. ev = day_event_test h n w)"
proof -
  from pickup_event_test_one[OF assms] obtain extra
    where e: "r = evs @ extra" "\<forall>ev \<in> set extra. \<exists>w. ev = day_event_test h n w" by blast
  from e(2) have "\<forall>ev \<in> set extra. \<exists>n w. ev = day_event_test h n w" by blast
  with e(1) show ?thesis by blast
qed

lemma process_entry_test_shape:
  assumes "process_entry_test h evs e = (r, eo)"
  shows "\<exists>extra. r = evs @ extra \<and> (\<forall>ev \<in> set extra. \<exists>n w. ev = day_event_test h n w)"
proof (cases "unpack5 e")
  case (Inl x)
  with assms show ?thesis by (simp add: process_entry_test_def)
next
  case (Inr t)
  obtain a n c p q where t: "t = (a, n, c, p, q)" by (cases t)
  show ?thesis
  proof (cases "pickup_event_test h n p evs")
    case (Inl x)
    with assms Inr t show ?thesis by (simp add: process_entry_test_def)
  next
    case r1: (Inr evs1)
    from pickup_event_test_shape[OF r1] obtain x1
      where x1: "evs1 = evs @ x1" "\<forall>ev \<in> set x1. \<exists>n w. ev = day_event_test h n w" by blast
    show ?thesis
    proof (cases "pickup_event_test h n q evs1")
      case (Inl x)
      with assms Inr t r1 have "r = evs1" by (simp add: process_entry_test_def)
      with x1 show ?thesis by blast
    next
      case r2: (Inr evs2)
      from pickup_event_test_shape[OF r2] obtain x2
        where x2: "evs2 = evs1 @ x2" "\<forall>ev \<in> set x2. \<exists>n w. ev = day_event_test h n w" by blast
      from assms Inr t r1 r2 have "r = evs2" by (simp add: process_entry_test_def)
      with x1 x2 have "r = evs @ (x1 @ x2)" by simp
      moreover from x1 x2 have "\<forall>ev \<in> set (x1 @ x2). \<exists>n w. ev = day_event_test h n w"
        by (simp add: ball_Un)
      ultimately show ?thesis by blast
    qed
  qed
qed

lemma entries_loop_test_shape:
  "entries_loop_test h evs es = Inr r \<Longrightarrow>
   \<exists>extra. r = evs @ extra \<and> (\<forall>ev \<in> set extra. \<exists>n w. ev = day_event_test h n w)"
proof (induction es arbitrary: evs)
  case Nil
  then show ?case by simp
next
  case (Cons e es)
  show ?case
  proof (cases "e = PyNone")
    case True
    with Cons show ?thesis by simp
  next
    case False
    obtain r1 eo where p: "process_entry_test h evs e = (r1, eo)" by (cases "process_entry_test h evs e")
    from process_entry_test_shape[OF p] obtain x1
      where x1: "r1 = evs @ x1" "\<forall>ev \<in> set x1. \<exists>n w. ev = day_event_test h n w" by blast
    from Cons.prems False p have "entries_loop_test h r1 es = Inr r"
      by (cases eo) (auto split: if_splits)
    from Cons.IH[OF this] obtain x2
      where x2: "r = r1 @ x2" "\<forall>ev \<in> set x2. \<exists>n w. ev = day_event_test h n w" by blast
    from x1 x2 have "r = evs @ (x1 @ x2)" by simp
    moreover from x1 x2 have "\<forall>ev \<in> set (x1 @ x2). \<exists>n w. ev = day_event_test h n w"
      by (simp add: ball_Un)
    ultimately show ?thesis by blast
  qed
qed

text \<open>
  In \<^verbatim>\<open>min_renovasjon\<close> the constructor is only ever given naive datetimes, so no block
  appends an event: the list of events stays empty.
\<close>

lemma pickup_event_same: "pickup_event h n d evs = Inr r \<Longrightarrow> r = evs"
  by (cases d)
     (auto simp: pickup_event_def CalendarEvent_naive Let_def split: if_splits sum.splits)

lemma process_entry_same:
  assumes "process_entry h evs e = (r, eo)"
  shows "r = evs"
proof (cases "unpack5 e")
  case (Inl x)
  with assms show ?thesis by (simp add: process_entry_def)
next
  case (Inr t)
  obtain a n c p q where t: "t = (a, n, c, p, q)" by (cases t)
  show ?thesis
  proof (cases "pickup_event h n p evs")
    case (Inl x)
    with assms Inr t show ?thesis by (simp add: process_entry_def)
  next
    case r1: (Inr evs1)
    from pickup_event_same[OF r1] have e1: "evs1 = evs" .
    show ?thesis
    proof (cases "pickup_event h n q evs1")
      case (Inl x)
      with assms Inr t r1 e1 show ?thesis by (simp add: process_entry_def)
    next
      case r2: (Inr evs2)
      from pickup_event_same[OF r2] e1 have "evs2 = evs" by simp
      with assms Inr t r1 r2 show ?thesis by (simp add: process_entry_def)
    qed
  qed
qed

lemma entries_loop_same: "entries_loop h evs es = Inr r \<Longrightarrow> r = evs"
proof (induction es arbitrary: evs)
  case Nil
  then show ?case by simp
next
  case (Cons e es)
  show ?case
  proof (cases "e = PyNone")
    case True
    with Cons show ?thesis by simp
  next
    case False
    obtain r1 eo where p: "process_entry h evs e = (r1, eo)" by (cases "process_entry h evs e")
    from process_entry_same[OF p] have r1: "r1 = evs" .
    from Cons.prems False p have "entries_loop h r1 es = Inr r"
      by (cases eo) (auto split: if_splits)
    from Cons.IH[OF this] r1 show ?thesis by simp
  qed
qed

lemma fetch_events_empty:
  assumes "fetch_events h self = Inr r"
  shows "r = []"
proof -
  from assms obtain cl evs where
    b: "(if truthy cl then (case iterate cl of Inl e \<Rightarrow> Inl e
              | Inr entries \<Rightarrow> entries_loop h [] entries) else Inr []) = Inr evs"
    and s: "sort_by_start evs = Inr r"
    unfolding fetch_events_def by (auto split: sum.splits)
  have "evs = []"
  proof (cases "truthy cl")
    case False
    with b show ?thesis by simp
  next
    case True
    with b obtain entries where "entries_loop h [] entries = Inr evs"
      by (auto split: sum.splits)
    then show ?thesis by (rule entries_loop_same)
  qed
  with s show ?thesis by (simp add: sort_by_start_def)
qed

text \<open>What the loops hand to the sort.\<close>

lemma built_test_shape:
  assumes "(if truthy cl then (case iterate cl of Inl e \<Rightarrow> Inl e
              | Inr entries \<Rightarrow> entries_loop_test h [] entries) else Inr []) = Inr evs"
  shows "\<forall>ev \<in> set evs. \<exists>n w. ev = day_event_test h n w"
proof (cases "truthy cl")
  case False
  with assms show ?thesis by simp
next
  case True
  with assms obtain entries where "entries_loop_test h [] entries = Inr evs"
    by (auto split: sum.splits)
  from entries_loop_test_shape[OF this] show ?thesis by simp
qed

lemma fetch_events_try_shape:
  assumes "fetch_events_try h self = Inr r"
  shows "\<forall>ev \<in> set r. \<exists>n w. ev = day_event_test h n w"
proof -
  from assms obtain cl evs where
    b: "(if truthy cl then (case iterate cl of Inl e \<Rightarrow> Inl e
              | Inr entries \<Rightarrow> entries_loop_test h [] entries) else Inr []) = Inr evs"
    and s: "sort_by_start evs = Inr r"
    unfolding fetch_events_try_def by (auto split: sum.splits)
  from sort_by_start_set[OF s] have "set r = set evs" by (metis set_mset_mset)
  with built_test_shape[OF b] show ?thesis by simp
qed

lemma fetch_events_test_shape:
  assumes "fetch_events_test h self = Inr r"
  shows "\<forall>ev \<in> set r. \<exists>n w. ev = day_event_test h n w"
proof (cases "fetch_events_try h self")
  case (Inl e)
  with assms show ?thesis by (simp add: fetch_events_test_def)
next
  case (Inr evs)
  with assms have "r = evs" by (simp add: fetch_events_test_def)
  with fetch_events_try_shape[OF Inr] show ?thesis by simp
qed

lemma fetch_events_test_total: "\<exists>r. fetch_events_test h self = Inr r"
  by (cases "fetch_events_try h self") (simp_all add: fetch_events_test_def)

lemma day_event_test_aware: "\<not> is_naive (start (day_event_test h n w))"
  by (simp add: day_event_test_def)

lemma fetch_events_try_wf:
  assumes z: "midnights_in_order h"
    and g: "get_calendar_list h (min_renovasjon self) = Inr (PySeq entries)"
    and wf: "\<forall>e \<in> set entries. e = PyNone \<or> well_formed e \<and> dates_before_last_day e"
  shows "fetch_events_try h self =
     Inr (sort_key (\<lambda>x. ticks (start x))
            (concat (map (entry_events (day_event_test h) (date (now h))) entries)))"
proof (cases "entries = []")
  case True
  with g show ?thesis by (simp add: fetch_events_try_def sort_by_start_def)
next
  case False
  let ?built = "concat (map (entry_events (day_event_test h) (date (now h))) entries)"
  have l: "entries_loop_test h [] entries = Inr ?built"
    using entries_loop_test_wf[OF z wf, of "[]"] by simp
  from entries_loop_test_shape[OF l] have "\<forall>e \<in> set ?built. \<not> is_naive (start e)"
    using day_event_test_aware by fastforce
  then have "sort_by_start ?built = Inr (sort_key (\<lambda>x. ticks (start x)) ?built)"
    by (rule sort_by_start_aware)
  with g False l show ?thesis by (simp add: fetch_events_try_def)
qed

lemma fetch_events_test_wf:
  assumes z: "midnights_in_order h"
    and g: "get_calendar_list h (min_renovasjon self) = Inr (PySeq entries)"
    and wf: "\<forall>e \<in> set entries. e = PyNone \<or> well_formed e \<and> dates_before_last_day e"
  shows "fetch_events_test h self =
     Inr (sort_key (\<lambda>x. ticks (start x))
            (concat (map (entry_events (day_event_test h) (date (now h))) entries)))"
  by (simp add: fetch_events_test_def fetch_events_try_wf[OF z g wf])

lemma oslo_simps:
  "utcoffset oslo = (\<lambda>w. 7200000000)" "now oslo = 1717927200000000"
  "get_calendar_list oslo = (\<lambda>m. m)" "format oslo = (\<lambda>v. ''?'')"
  by (simp_all add: oslo_def)

lemma oslo_in_order: "midnights_in_order oslo"
  by (simp add: midnights_in_order_def oslo_simps day_us_def algebra_simps)

lemma house_simps:
  "min_renovasjon (house es) = Inr (PySeq es)" "events (house es) = []"
  by (simp_all add: house_def)

lemma oslo_today: "date (now oslo) = 19883"
  by (simp add: oslo_simps date_def day_us_def)

lemma plastic_wf: "well_formed plastic" "dates_before_last_day plastic"
  by (simp_all add: plastic_def date_def day_us_def max_day_def)

lemma paper_twice_wf: "well_formed paper_twice" "dates_before_last_day paper_twice"
  by (simp_all add: paper_twice_def date_def day_us_def max_day_def)

lemma old_glass_wf: "well_formed old_glass" "dates_before_last_day old_glass"
  by (simp_all add: old_glass_def date_def day_us_def max_day_def)

lemma plastic_events:
  "entry_events mk 19883 plastic =
     [mk (PyStr ''Plastic'') 1717977600000000, mk (PyStr ''Plastic'') 1719187200000000]"
  by (simp add: plastic_def field_events_def date_def day_us_def)

lemma paper_twice_events:
  "entry_events mk 19883 paper_twice =
     [mk (PyStr ''Papir'') 1717977600000000, mk (PyStr ''Papir'') 1717981200000000]"
  by (simp add: paper_twice_def field_events_def date_def day_us_def)

lemma old_glass_events: "entry_events mk 19883 old_glass = []"
  by (simp add: old_glass_def field_events_def date_def day_us_def)

lemma plastic_start_test:
  "start (day_event_test oslo n 1717977600000000) = Aware 1717970400000000"
  "start (day_event_test oslo n 1719187200000000) = Aware 1719180000000000"
  "start (day_event_test oslo n 1717981200000000) = Aware 1717970400000000"
  "end' (day_event_test oslo n 1717977600000000) = Aware 1718056800000000"
  "end' (day_event_test oslo n 1719187200000000) = Aware 1719266400000000"
  "end' (day_event_test oslo n 1717981200000000) = Aware 1718056800000000"
  by (simp_all add: day_event_test_def oslo_simps date_def day_us_def)

lemma plastic_start:
  "start (day_event h n 1717977600000000) = Naive 1717977600000000"
  "start (day_event h n 1719187200000000) = Naive 1719187200000000"
  "start (day_event h n 1717981200000000) = Naive 1717977600000000"
  "end' (day_event h n 1717977600000000) = Naive 1718064000000000"
  "end' (day_event h n 1719187200000000) = Naive 1719273600000000"
  "end' (day_event h n 1717981200000000) = Naive 1718064000000000"
  by (simp_all add: day_event_def date_def day_us_def)

lemma fetch_test_plastic:
  "fetch_events_test oslo (house [plastic]) =
     Inr [day_event_test oslo (PyStr ''Plastic'') 1717977600000000,
          day_event_test oslo (PyStr ''Plastic'') 1719187200000000]"
proof -
  have "fetch_events_test oslo (house [plastic]) =
     Inr (sort_key (\<lambda>x. ticks (start x))
            (concat (map (entry_events (day_event_test oslo) (date (now oslo))) [plastic])))"
    by (rule fetch_events_test_wf)
       (simp_all add: oslo_in_order oslo_simps house_simps plastic_wf)
  then show ?thesis
    by (simp add: oslo_today plastic_events plastic_start_test)
qed

lemma fetch_test_old_glass_plastic:
  "fetch_events_test oslo (house [old_glass, plastic]) =
     Inr [day_event_test oslo (PyStr ''Plastic'') 1717977600000000,
          day_event_test oslo (PyStr ''Plastic'') 1719187200000000]"
proof -
  have "fetch_events_test oslo (house [old_glass, plastic]) =
     Inr (sort_key (\<lambda>x. ticks (start x))
            (concat (map (entry_events (day_event_test oslo) (date (now oslo)))
               [old_glass, plastic])))"
    by (rule fetch_events_test_wf)
       (simp_all add: oslo_in_order oslo_simps house_simps plastic_wf old_glass_wf)
  then show ?thesis
    by (simp add: oslo_today plastic_events old_glass_events plastic_start_test)
qed

text \<open>
  In \<^verbatim>\<open>min_renovasjon\<close> a list without a due date gives the empty list, and a due date
  gives the exception of the constructor.
\<close>

lemma fetch_old_glass: "fetch_events oslo (house [old_glass]) = Inr []"
  by (simp add: fetch_events_def oslo_simps house_simps old_glass_def process_entry_def
        unpack5_def pickup_event_def date_def day_us_def sort_by_start_def)

lemma fetch_plastic_raises: "fetch_events oslo (house [plastic]) = Inl HomeAssistantError"
  by (simp add: fetch_events_def oslo_simps house_simps plastic_def process_entry_def
        unpack5_def pickup_event_def date_def day_us_def replace_midnight_def add_day_def
        max_day_def CalendarEvent_def)

section \<open>The events that are built\<close>

text \<open>
  C2. Every event the event builder returns spans one calendar day of the configured local
  time zone: there is a local midnight \<open>m\<close> such that the start of the event is the instant
  of \<open>m\<close> and its end is the instant of the following local midnight \<open>m + day_us\<close>, both
  aware and normalised to UTC. This is \<^verbatim>\<open>min_renovasjon_test\<close>. The builder of
  \<^verbatim>\<open>min_renovasjon\<close> produces no event at all: whenever it returns, its list is empty.
\<close>

theorem event_spans_one_local_day:
  "(fetch_events_test h self = Inr evs \<and> ev \<in> set evs \<longrightarrow>
      (\<exists>m. m mod day_us = 0
         \<and> start ev = Aware (m - utcoffset h m)
         \<and> end' ev = Aware (m + day_us - utcoffset h (m + day_us))))
   \<and> (fetch_events h self' = Inr evs' \<longrightarrow> evs' = [])"
proof (intro conjI impI)
  assume a: "fetch_events_test h self = Inr evs \<and> ev \<in> set evs"
  with fetch_events_test_shape[of h self evs] obtain n w where "ev = day_event_test h n w"
    by blast
  then have "(date w * day_us) mod day_us = 0
      \<and> start ev = Aware (date w * day_us - utcoffset h (date w * day_us))
      \<and> end' ev = Aware (date w * day_us + day_us - utcoffset h (date w * day_us + day_us))"
    by (simp add: day_event_test_def)
  then show "\<exists>m. m mod day_us = 0
         \<and> start ev = Aware (m - utcoffset h m)
         \<and> end' ev = Aware (m + day_us - utcoffset h (m + day_us))"
    by (rule exI[of _ "date w * day_us"])
next
  assume "fetch_events h self' = Inr evs'"
  then show "evs' = []" by (rule fetch_events_empty)
qed

theorem event_spans_one_local_day_witness:
  "fetch_events_test oslo (house [plastic]) =
     Inr [day_event_test oslo (PyStr ''Plastic'') 1717977600000000,
          day_event_test oslo (PyStr ''Plastic'') 1719187200000000]
   \<and> (\<exists>m. m mod day_us = 0
         \<and> start (day_event_test oslo (PyStr ''Plastic'') 1717977600000000) = Aware (m - utcoffset oslo m)
         \<and> end' (day_event_test oslo (PyStr ''Plastic'') 1717977600000000)
             = Aware (m + day_us - utcoffset oslo (m + day_us)))
   \<and> start (day_event_test oslo (PyStr ''Plastic'') 1717977600000000) = Aware 1717970400000000
   \<and> end' (day_event_test oslo (PyStr ''Plastic'') 1717977600000000) = Aware 1718056800000000
   \<and> fetch_events oslo (house [old_glass]) = Inr []"
  using event_spans_one_local_day
    [of oslo "house [plastic]"
        "[day_event_test oslo (PyStr ''Plastic'') 1717977600000000,
          day_event_test oslo (PyStr ''Plastic'') 1719187200000000]"
        "day_event_test oslo (PyStr ''Plastic'') 1717977600000000"
        "house [old_glass]" "[]"]
    fetch_test_plastic fetch_old_glass
  by (simp add: plastic_start_test)

lemma fetch_test_three:
  "fetch_events_test oslo (house [plastic, PyNone, paper_twice]) =
     Inr [day_event_test oslo (PyStr ''Plastic'') 1717977600000000,
          day_event_test oslo (PyStr ''Papir'') 1717977600000000,
          day_event_test oslo (PyStr ''Papir'') 1717981200000000,
          day_event_test oslo (PyStr ''Plastic'') 1719187200000000]"
proof -
  have "fetch_events_test oslo (house [plastic, PyNone, paper_twice]) =
     Inr (sort_key (\<lambda>x. ticks (start x))
            (concat (map (entry_events (day_event_test oslo) (date (now oslo)))
               [plastic, PyNone, paper_twice])))"
    by (rule fetch_events_test_wf)
       (simp_all add: oslo_in_order oslo_simps house_simps plastic_wf paper_twice_wf)
  then show ?thesis
    by (simp add: oslo_today plastic_events paper_twice_events plastic_start_test)
qed

lemma pickup_event_not_due:
  assumes "date_field d" and "field_events mk (date (now h)) n d = []"
  shows "pickup_event h n d evs = Inr evs"
proof (cases d)
  case (PyDatetime w)
  with assms(2) have "\<not> date (now h) \<le> date w"
    by (auto simp: field_events_def split: if_splits)
  with PyDatetime show ?thesis by (simp add: pickup_event_def)
qed (use assms in \<open>simp_all add: pickup_event_def\<close>)

lemma process_entry_not_due:
  assumes "well_formed e" and "entry_events mk (date (now h)) e = []"
  shows "process_entry h evs e = (evs, None)"
proof -
  from assms(1) obtain a b c p n where e: "e = PySeq [a, b, c, p, n]" "date_field p" "date_field n"
    by (rule well_formed_cases)
  from assms(2) e(1) have f: "field_events mk (date (now h)) b p = []"
    "field_events mk (date (now h)) b n = []" by simp_all
  show ?thesis
    by (simp add: e(1) process_entry_def unpack5_def
          pickup_event_not_due[OF e(2) f(1)] pickup_event_not_due[OF e(3) f(2)])
qed

lemma entries_loop_not_due:
  "\<forall>e \<in> set es. e = PyNone \<or> well_formed e \<and> entry_events mk (date (now h)) e = [] \<Longrightarrow>
   entries_loop h evs es = Inr evs"
proof (induction es arbitrary: evs)
  case Nil
  then show ?case by simp
next
  case (Cons e es)
  show ?case
  proof (cases "e = PyNone")
    case True
    with Cons show ?thesis by simp
  next
    case False
    with Cons.prems have "well_formed e" "entry_events mk (date (now h)) e = []" by auto
    then have "process_entry h evs e = (evs, None)" by (rule process_entry_not_due)
    with False Cons show ?thesis by simp
  qed
qed

lemma fetch_events_not_due:
  assumes g: "get_calendar_list h (min_renovasjon self) = Inr (PySeq entries)"
    and wf: "\<forall>e \<in> set entries. e = PyNone \<or> well_formed e \<and> entry_events mk (date (now h)) e = []"
  shows "fetch_events h self = Inr []"
proof -
  have "entries_loop h [] entries = Inr []" using wf by (rule entries_loop_not_due)
  with g show ?thesis by (simp add: fetch_events_def sort_by_start_def)
qed

text \<open>
  C3, as the code has it. Take a pickup list of null entries and pickup entries of the data
  model whose dates are all earlier than 9999-12-31, in a time zone whose local midnights
  are in order. The builder of \<^verbatim>\<open>min_renovasjon_test\<close> returns, and what it returns is, as a
  multiset, the events of the entries one by one: for each entry the events of its pickup
  date followed by the events of its next pickup date, where a date field gives exactly
  one event when it is present and not before the current local date, and none when it is
  before that date or absent. The builder of \<^verbatim>\<open>min_renovasjon\<close> returns the empty list when
  no date of the list is due.
\<close>

theorem one_event_per_due_date:
  assumes "midnights_in_order h"
    and "get_calendar_list h (min_renovasjon self) = Inr (PySeq entries)"
    and "\<forall>e \<in> set entries. e = PyNone \<or> well_formed e \<and> dates_before_last_day e"
  shows
    "(\<exists>evs. fetch_events_test h self = Inr evs
        \<and> mset evs = mset (concat (map (entry_events (day_event_test h) (date (now h))) entries)))
     \<and> ((\<forall>e \<in> set entries. entry_events (day_event_test h) (date (now h)) e = [])
          \<longrightarrow> fetch_events h self = Inr [])
     \<and> (\<forall>mk a n c p q. entry_events mk (date (now h)) (PySeq [a, n, c, p, q]) =
           field_events mk (date (now h)) n p @ field_events mk (date (now h)) n q)
     \<and> (\<forall>mk n w. date (now h) \<le> date w \<longrightarrow>
           field_events mk (date (now h)) n (PyDatetime w) = [mk n w])
     \<and> (\<forall>mk n w. date w < date (now h) \<longrightarrow>
           field_events mk (date (now h)) n (PyDatetime w) = [])
     \<and> (\<forall>mk n. field_events mk (date (now h)) n PyNone = [])
     \<and> (\<forall>mk. entry_events mk (date (now h)) PyNone = [])"
proof (intro conjI impI)
  show "\<exists>evs. fetch_events_test h self = Inr evs
        \<and> mset evs = mset (concat (map (entry_events (day_event_test h) (date (now h))) entries))"
    by (simp add: fetch_events_test_wf[OF assms])
next
  assume n: "\<forall>e \<in> set entries. entry_events (day_event_test h) (date (now h)) e = []"
  have "\<forall>e \<in> set entries. e = PyNone
          \<or> well_formed e \<and> entry_events (day_event_test h) (date (now h)) e = []"
    using assms(3) n by blast
  with assms(2) show "fetch_events h self = Inr []" by (rule fetch_events_not_due)
qed (simp_all add: field_events_def)

theorem one_event_per_due_date_witness:
  "(\<exists>evs. fetch_events_test oslo (house [plastic, PyNone, paper_twice]) = Inr evs
      \<and> mset evs = mset [day_event_test oslo (PyStr ''Plastic'') 1717977600000000,
                          day_event_test oslo (PyStr ''Plastic'') 1719187200000000,
                          day_event_test oslo (PyStr ''Papir'') 1717977600000000,
                          day_event_test oslo (PyStr ''Papir'') 1717981200000000])
   \<and> (\<exists>evs. fetch_events_test oslo (house [old_glass]) = Inr evs \<and> mset evs = mset [])
   \<and> fetch_events oslo (house [old_glass]) = Inr []"
proof -
  have g: "get_calendar_list oslo (min_renovasjon (house [plastic, PyNone, paper_twice]))
             = Inr (PySeq [plastic, PyNone, paper_twice])"
    by (simp add: oslo_simps house_simps)
  have wf: "\<forall>e \<in> set [plastic, PyNone, paper_twice].
              e = PyNone \<or> well_formed e \<and> dates_before_last_day e"
    by (simp add: plastic_wf paper_twice_wf)
  have g': "get_calendar_list oslo (min_renovasjon (house [old_glass])) = Inr (PySeq [old_glass])"
    by (simp add: oslo_simps house_simps)
  have wf': "\<forall>e \<in> set [old_glass]. e = PyNone \<or> well_formed e \<and> dates_before_last_day e"
    by (simp add: old_glass_wf)
  from one_event_per_due_date[OF oslo_in_order g wf] one_event_per_due_date[OF oslo_in_order g' wf']
  show ?thesis
    by (simp add: oslo_today plastic_events paper_twice_events old_glass_events)
qed

lemma last_paper_due:
  "date 1717927200000000 = 19883" "date 253402214400000000 = 2932896" "max_day = 2932896"
  by (simp_all add: date_def day_us_def max_day_def)

text \<open>
  C3 as the specification states it fails on 9999-12-31: the day after it is no datetime,
  \<^verbatim>\<open>pickup_date + timedelta(days=1)\<close> raises OverflowError, and the outer handler of
  \<^verbatim>\<open>min_renovasjon_test\<close> returns the empty list, for this entry and for the entry after it.
\<close>

theorem last_day_gives_no_event:
  "last_paper = PySeq [PyStr ''paper'', PyStr ''Papir'', PyStr [],
                       PyDatetime 253402214400000000, PyDatetime 253402214400000000]
   \<and> date (now oslo) \<le> date 253402214400000000
   \<and> fetch_events_test oslo (house [last_paper]) = Inr []
   \<and> fetch_events_test oslo (house [last_paper, plastic]) = Inr []"
  by (simp add: last_paper_def oslo_simps last_paper_due)
     (simp add: fetch_events_test_def fetch_events_try_def oslo_simps house_simps
        last_paper_def process_entry_test_def unpack5_def pickup_event_test_def
        last_paper_due add_day_def)

lemma mset_entry_subset:
  "e \<in> set es \<Longrightarrow> mset (f e) \<subseteq># mset (concat (map f es))"
proof (induction es)
  case Nil
  then show ?case by simp
next
  case (Cons x xs)
  show ?case
  proof (cases "e = x")
    case True
    then show ?thesis by simp
  next
    case False
    with Cons have "mset (f e) \<subseteq># mset (concat (map f xs))" by simp
    then show ?thesis by (simp add: subset_mset.add_increasing)
  qed
qed

lemma twice_entry_events:
  assumes "date w = date w'" and "today \<le> date w"
  shows "entry_events (day_event_test h) today (PySeq [a, n, c, PyDatetime w, PyDatetime w'])
           = [day_event_test h n w, day_event_test h n w]"
  using assms by (simp add: field_events_def day_event_test_def)

lemma count_twice:
  assumes "e \<in> set es" and "f e = [x, x]"
  shows "2 \<le> count (mset (concat (map f es))) x"
proof -
  from mset_entry_subset[OF assms(1), of f] have "count (mset (f e)) x \<le> count (mset (concat (map f es))) x"
    by (rule mset_subset_eq_count)
  with assms(2) show ?thesis by simp
qed

text \<open>
  C10, as the code has it. Take a pickup list of null entries and pickup entries of the data
  model whose dates are all earlier than 9999-12-31, in a time zone whose local midnights
  are in order. When an entry of the list has both dates present, on the same calendar day
  and not before the current local date, the event of that day is in the output of the
  builder of \<^verbatim>\<open>min_renovasjon_test\<close> at least twice, the two being equal in summary,
  description, start and end. The output is, as a multiset, all the events of all the
  entries: nothing is removed as a duplicate.
\<close>

theorem equal_dates_give_two_events:
  assumes "midnights_in_order h"
    and "get_calendar_list h (min_renovasjon self) = Inr (PySeq entries)"
    and "\<forall>e \<in> set entries. e = PyNone \<or> well_formed e \<and> dates_before_last_day e"
    and "PySeq [a, n, c, PyDatetime w, PyDatetime w'] \<in> set entries"
    and "date w = date w'"
    and "date (now h) \<le> date w"
  shows
    "\<exists>evs. fetch_events_test h self = Inr evs
        \<and> 2 \<le> count (mset evs) (day_event_test h n w)
        \<and> day_event_test h n w' = day_event_test h n w
        \<and> mset evs = mset (concat (map (entry_events (day_event_test h) (date (now h))) entries))"
proof -
  have "2 \<le> count (mset (concat (map (entry_events (day_event_test h) (date (now h))) entries)))
               (day_event_test h n w)"
    using assms(4) twice_entry_events[OF assms(5,6)] by (rule count_twice)
  moreover have "day_event_test h n w' = day_event_test h n w"
    using assms(5) by (simp add: day_event_test_def)
  ultimately show ?thesis
    by (simp add: fetch_events_test_wf[OF assms(1,2,3)])
qed

lemma paper_twice_dates:
  "date 1717977600000000 = 19884" "date 1717981200000000 = 19884" "date 1719187200000000 = 19898"
  by (simp_all add: date_def day_us_def)

theorem equal_dates_give_two_events_witness:
  "fetch_events_test oslo (house [plastic, PyNone, paper_twice]) =
     Inr [day_event_test oslo (PyStr ''Plastic'') 1717977600000000,
          day_event_test oslo (PyStr ''Papir'') 1717977600000000,
          day_event_test oslo (PyStr ''Papir'') 1717981200000000,
          day_event_test oslo (PyStr ''Plastic'') 1719187200000000]
   \<and> day_event_test oslo (PyStr ''Papir'') 1717981200000000
       = day_event_test oslo (PyStr ''Papir'') 1717977600000000
   \<and> 2 \<le> count (mset [day_event_test oslo (PyStr ''Plastic'') 1717977600000000,
                          day_event_test oslo (PyStr ''Papir'') 1717977600000000,
                          day_event_test oslo (PyStr ''Papir'') 1717981200000000,
                          day_event_test oslo (PyStr ''Plastic'') 1719187200000000])
                   (day_event_test oslo (PyStr ''Papir'') 1717977600000000)"
proof -
  have g: "get_calendar_list oslo (min_renovasjon (house [plastic, PyNone, paper_twice]))
             = Inr (PySeq [plastic, PyNone, paper_twice])"
    by (simp add: oslo_simps house_simps)
  have wf: "\<forall>e \<in> set [plastic, PyNone, paper_twice].
              e = PyNone \<or> well_formed e \<and> dates_before_last_day e"
    by (simp add: plastic_wf paper_twice_wf)
  have m: "PySeq [PyStr ''paper'', PyStr ''Papir'', PyStr [],
                  PyDatetime 1717977600000000, PyDatetime 1717981200000000]
             \<in> set [plastic, PyNone, paper_twice]"
    by (simp add: paper_twice_def)
  have d: "date 1717977600000000 = date 1717981200000000"
    by (simp add: paper_twice_dates)
  have t: "date (now oslo) \<le> date 1717977600000000"
    by (simp add: oslo_today paper_twice_dates)
  from equal_dates_give_two_events[OF oslo_in_order g wf m d t] fetch_test_three
  show ?thesis by simp
qed

text \<open>
  C10 as the specification states it fails on 9999-12-31: an entry with both dates on that
  day, which is not in the past, gives no event in \<^verbatim>\<open>min_renovasjon_test\<close>, because
  \<^verbatim>\<open>pickup_date + timedelta(days=1)\<close> raises OverflowError and the outer handler returns
  the empty list.
\<close>

theorem last_day_gives_no_pair:
  "last_paper = PySeq [PyStr ''paper'', PyStr ''Papir'', PyStr [],
                       PyDatetime 253402214400000000, PyDatetime 253402214400000000]
   \<and> date (now oslo) \<le> date 253402214400000000
   \<and> fetch_events_test oslo (house [last_paper]) = Inr []
   \<and> count (mset ([] :: calendar_event list))
        (day_event_test oslo (PyStr ''Papir'') 253402214400000000) = 0"
  by (simp add: last_paper_def oslo_simps last_paper_due)
     (simp add: fetch_events_test_def fetch_events_try_def oslo_simps house_simps
        last_paper_def process_entry_test_def unpack5_def pickup_event_test_def
        last_paper_due add_day_def)

lemma entries_loop_test_skip_none:
  "entries_loop_test h evs (filter (\<lambda>e. e \<noteq> PyNone) es) = entries_loop_test h evs es"
proof (induction es arbitrary: evs)
  case Nil
  then show ?case by simp
next
  case (Cons e es)
  show ?case
  proof (cases "e = PyNone")
    case True
    with Cons show ?thesis by simp
  next
    case False
    obtain r eo where p: "process_entry_test h evs e = (r, eo)"
      by (cases "process_entry_test h evs e")
    with False Cons.IH[of r] show ?thesis by (cases eo) simp_all
  qed
qed

lemma entries_loop_skip_none:
  "entries_loop h evs (filter (\<lambda>e. e \<noteq> PyNone) es) = entries_loop h evs es"
proof (induction es arbitrary: evs)
  case Nil
  then show ?case by simp
next
  case (Cons e es)
  show ?case
  proof (cases "e = PyNone")
    case True
    with Cons show ?thesis by simp
  next
    case False
    obtain r eo where p: "process_entry h evs e = (r, eo)"
      by (cases "process_entry h evs e")
    with False Cons.IH[of r] show ?thesis by (cases eo) simp_all
  qed
qed

text \<open>What the two builders do between the await and the sort, on a list or tuple.\<close>

lemma built_test_skip_none:
  "(if truthy (PySeq (filter (\<lambda>e. e \<noteq> PyNone) es))
    then (case iterate (PySeq (filter (\<lambda>e. e \<noteq> PyNone) es)) of Inl e \<Rightarrow> Inl e
          | Inr entries \<Rightarrow> entries_loop_test h [] entries)
    else Inr [])
   = (if truthy (PySeq es)
      then (case iterate (PySeq es) of Inl e \<Rightarrow> Inl e
            | Inr entries \<Rightarrow> entries_loop_test h [] entries)
      else Inr [])"
proof (cases "filter (\<lambda>e. e \<noteq> PyNone) es = []")
  case True
  have "entries_loop_test h [] es = entries_loop_test h [] (filter (\<lambda>e. e \<noteq> PyNone) es)"
    by (simp only: entries_loop_test_skip_none)
  with True have "entries_loop_test h [] es = Inr []" by simp
  with True show ?thesis by simp
next
  case False
  then have "es \<noteq> []" by auto
  with False show ?thesis by (simp add: entries_loop_test_skip_none)
qed

lemma built_skip_none:
  "(if truthy (PySeq (filter (\<lambda>e. e \<noteq> PyNone) es))
    then (case iterate (PySeq (filter (\<lambda>e. e \<noteq> PyNone) es)) of Inl e \<Rightarrow> Inl e
          | Inr entries \<Rightarrow> entries_loop h [] entries)
    else Inr [])
   = (if truthy (PySeq es)
      then (case iterate (PySeq es) of Inl e \<Rightarrow> Inl e
            | Inr entries \<Rightarrow> entries_loop h [] entries)
      else Inr [])"
proof (cases "filter (\<lambda>e. e \<noteq> PyNone) es = []")
  case True
  have "entries_loop h [] es = entries_loop h [] (filter (\<lambda>e. e \<noteq> PyNone) es)"
    by (simp only: entries_loop_skip_none)
  with True have "entries_loop h [] es = Inr []" by simp
  with True show ?thesis by simp
next
  case False
  then have "es \<noteq> []" by auto
  with False show ?thesis by (simp add: entries_loop_skip_none)
qed

text \<open>
  C7. A data source that delivers a pickup list and one that delivers the same list without
  its null entries give the same output of the event builder, in both components, whatever
  else the list holds (the same events in the same order, or the same exception in
  \<^verbatim>\<open>min_renovasjon\<close>).
\<close>

theorem null_entries_are_skipped:
  assumes "get_calendar_list h (min_renovasjon self) = Inr (PySeq entries)"
    and "get_calendar_list h (min_renovasjon self') = Inr (PySeq (filter (\<lambda>e. e \<noteq> PyNone) entries))"
  shows "fetch_events_test h self = fetch_events_test h self'
       \<and> fetch_events h self = fetch_events h self'"
proof
  have "fetch_events_try h self = fetch_events_try h self'"
    unfolding fetch_events_try_def by (simp only: assms sum.case built_test_skip_none)
  then show "fetch_events_test h self = fetch_events_test h self'"
    by (simp add: fetch_events_test_def)
  show "fetch_events h self = fetch_events h self'"
    unfolding fetch_events_def by (simp only: assms sum.case built_skip_none)
qed

theorem null_entries_are_skipped_witness:
  "fetch_events_test oslo (house [plastic, PyNone, paper_twice])
     = fetch_events_test oslo (house [plastic, paper_twice])
   \<and> fetch_events oslo (house [plastic, PyNone, paper_twice])
     = fetch_events oslo (house [plastic, paper_twice])
   \<and> fetch_events_test oslo (house [plastic, PyNone, paper_twice]) =
     Inr [day_event_test oslo (PyStr ''Plastic'') 1717977600000000,
          day_event_test oslo (PyStr ''Papir'') 1717977600000000,
          day_event_test oslo (PyStr ''Papir'') 1717981200000000,
          day_event_test oslo (PyStr ''Plastic'') 1719187200000000]"
proof -
  have g1: "get_calendar_list oslo (min_renovasjon (house [plastic, PyNone, paper_twice]))
              = Inr (PySeq [plastic, PyNone, paper_twice])"
    by (simp add: oslo_simps house_simps)
  have g2: "get_calendar_list oslo (min_renovasjon (house [plastic, paper_twice]))
              = Inr (PySeq (filter (\<lambda>e. e \<noteq> PyNone) [plastic, PyNone, paper_twice]))"
    by (simp add: oslo_simps house_simps plastic_def paper_twice_def)
  from null_entries_are_skipped[OF g1 g2] fetch_test_three show ?thesis by simp
qed

lemma async_get_events_test_eq:
  "fetch_events_test h self = Inr evs \<Longrightarrow>
   async_get_events_test h self s e =
     (Inr (filter (in_range h (as_utc h s) (as_utc h e)) evs), self\<lparr>events := evs\<rparr>)"
  by (simp add: async_get_events_test_def)

lemma async_get_events_eq:
  "fetch_events h self = Inr evs \<Longrightarrow>
   async_get_events h self s e =
     (Inr (filter (in_range h (as_utc h s) (as_utc h e)) evs), self\<lparr>events := evs\<rparr>)"
  by (simp add: async_get_events_def)

lemma async_get_events_raises:
  "fetch_events h self = Inl x \<Longrightarrow> async_get_events h self s e = (Inl x, self)"
  by (simp add: async_get_events_def)

lemma async_get_events_empty:
  assumes "fst (async_get_events h self s e) = Inr r"
  shows "r = [] \<and> fetch_events h self = Inr []"
proof (cases "fetch_events h self")
  case (Inl x)
  with assms show ?thesis by (simp add: async_get_events_raises)
next
  case (Inr b)
  from fetch_events_empty[OF Inr] have "b = []" .
  with assms Inr show ?thesis by (simp add: async_get_events_eq)
qed

lemma fetch_events_test_sorted:
  "fetch_events_test h self = Inr evs \<Longrightarrow> sorted (map (\<lambda>x. ticks (start x)) evs)"
  by (cases "fetch_events_try h self")
     (auto simp: fetch_events_test_def fetch_events_try_def
        dest: sort_by_start_set split: sum.splits)

lemma instant_test_ticks:
  assumes "fetch_events_test h self = Inr evs"
  shows "map (\<lambda>x. instant h (start x)) evs = map (\<lambda>x. ticks (start x)) evs"
proof (rule map_cong[OF refl])
  fix x assume "x \<in> set evs"
  with fetch_events_test_shape[OF assms] obtain n w where "x = day_event_test h n w" by blast
  then show "instant h (start x) = ticks (start x)"
    by (simp add: instant_def day_event_test_def)
qed

lemma instant_plastic:
  "instant oslo (start (day_event_test oslo n 1717977600000000)) = 1717970400000000"
  "instant oslo (start (day_event_test oslo n 1719187200000000)) = 1719180000000000"
  "instant oslo (start (day_event_test oslo n 1717981200000000)) = 1717970400000000"
  "instant oslo (end' (day_event_test oslo n 1717977600000000)) = 1718056800000000"
  "instant oslo (end' (day_event_test oslo n 1719187200000000)) = 1719266400000000"
  "instant oslo (end' (day_event_test oslo n 1717981200000000)) = 1718056800000000"
  by (simp_all add: instant_def plastic_start_test)

lemma in_range_included: "in_range h (as_utc h s) (as_utc h e) = included h s e"
  by (rule ext) (simp add: in_range_def included_def instant_def)

lemma range_query_three:
  "async_get_events_test oslo (house [plastic, PyNone, paper_twice])
       (Aware 1717977600000000) (Aware 1718020800000000)
   = (Inr [day_event_test oslo (PyStr ''Plastic'') 1717977600000000,
           day_event_test oslo (PyStr ''Papir'') 1717977600000000,
           day_event_test oslo (PyStr ''Papir'') 1717981200000000],
      (house [plastic, PyNone, paper_twice])\<lparr>events :=
         [day_event_test oslo (PyStr ''Plastic'') 1717977600000000,
          day_event_test oslo (PyStr ''Papir'') 1717977600000000,
          day_event_test oslo (PyStr ''Papir'') 1717981200000000,
          day_event_test oslo (PyStr ''Plastic'') 1719187200000000]\<rparr>)"
  by (simp add: async_get_events_test_eq[OF fetch_test_three] in_range_def plastic_start_test)

lemma range_query_old_glass:
  "async_get_events oslo ((house [old_glass])\<lparr>events := old\<rparr>) s e
     = (Inr [], (house [old_glass])\<lparr>events := []\<rparr>)"
proof -
  have "fetch_events oslo ((house [old_glass])\<lparr>events := old\<rparr>) = Inr []"
    using fetch_old_glass by (simp add: fetch_events_def)
  from async_get_events_eq[OF this] show ?thesis by simp
qed

text \<open>
  C6. The lists handed to the caller are sorted by start instant, non-decreasing: the
  output of the builder and the output of the range query. In \<^verbatim>\<open>min_renovasjon_test\<close> the
  builder sorts the aware starts and the query filters the sorted list. In
  \<^verbatim>\<open>min_renovasjon\<close> the only list that the builder or the query ever returns is the empty
  one.
\<close>

theorem events_sorted_by_start:
  "(fetch_events_test h self = Inr evs \<longrightarrow> sorted (map (\<lambda>x. instant h (start x)) evs))
   \<and> (fst (async_get_events_test h self s e) = Inr r \<longrightarrow>
        sorted (map (\<lambda>x. instant h (start x)) r))
   \<and> (fetch_events h self' = Inr evs' \<longrightarrow>
        evs' = [] \<and> sorted (map (\<lambda>x. instant h (start x)) evs'))
   \<and> (fst (async_get_events h self' s e) = Inr r' \<longrightarrow>
        r' = [] \<and> sorted (map (\<lambda>x. instant h (start x)) r'))"
proof (intro conjI impI)
  assume "fetch_events_test h self = Inr evs"
  then show "sorted (map (\<lambda>x. instant h (start x)) evs)"
    by (simp add: instant_test_ticks fetch_events_test_sorted)
next
  assume a: "fst (async_get_events_test h self s e) = Inr r"
  obtain b where b: "fetch_events_test h self = Inr b"
    using fetch_events_test_total by blast
  from a have r: "r = filter (in_range h (as_utc h s) (as_utc h e)) b"
    by (simp add: async_get_events_test_eq[OF b])
  have "sorted (map (\<lambda>x. instant h (start x)) b)"
    using b by (simp add: instant_test_ticks fetch_events_test_sorted)
  then show "sorted (map (\<lambda>x. instant h (start x)) r)"
    unfolding r by (rule sorted_filter)
next
  assume a: "fetch_events h self' = Inr evs'"
  then show "evs' = []" by (rule fetch_events_empty)
  then show "sorted (map (\<lambda>x. instant h (start x)) evs')" by simp
next
  assume a: "fst (async_get_events h self' s e) = Inr r'"
  then show "r' = []" using async_get_events_empty by blast
  then show "sorted (map (\<lambda>x. instant h (start x)) r')" by simp
qed

theorem events_sorted_by_start_witness:
  "fetch_events_test oslo (house [plastic, PyNone, paper_twice]) =
     Inr [day_event_test oslo (PyStr ''Plastic'') 1717977600000000,
          day_event_test oslo (PyStr ''Papir'') 1717977600000000,
          day_event_test oslo (PyStr ''Papir'') 1717981200000000,
          day_event_test oslo (PyStr ''Plastic'') 1719187200000000]
   \<and> sorted [1717970400000000, 1717970400000000, 1717970400000000, 1719180000000000 :: int]
   \<and> fst (async_get_events_test oslo (house [plastic, PyNone, paper_twice])
           (Aware 1717977600000000) (Aware 1718020800000000)) =
     Inr [day_event_test oslo (PyStr ''Plastic'') 1717977600000000,
          day_event_test oslo (PyStr ''Papir'') 1717977600000000,
          day_event_test oslo (PyStr ''Papir'') 1717981200000000]
   \<and> sorted [1717970400000000, 1717970400000000, 1717970400000000 :: int]
   \<and> fetch_events oslo (house [old_glass]) = Inr []
   \<and> fst (async_get_events oslo (house [old_glass])
           (Aware 1717977600000000) (Aware 1718020800000000)) = Inr []"
  using events_sorted_by_start
    [of oslo "house [plastic, PyNone, paper_twice]"
        "[day_event_test oslo (PyStr ''Plastic'') 1717977600000000,
          day_event_test oslo (PyStr ''Papir'') 1717977600000000,
          day_event_test oslo (PyStr ''Papir'') 1717981200000000,
          day_event_test oslo (PyStr ''Plastic'') 1719187200000000]"
        "Aware 1717977600000000" "Aware 1718020800000000"
        "[day_event_test oslo (PyStr ''Plastic'') 1717977600000000,
          day_event_test oslo (PyStr ''Papir'') 1717977600000000,
          day_event_test oslo (PyStr ''Papir'') 1717981200000000]"
        "house [old_glass]" "[]" "[]"]
    fetch_test_three fetch_old_glass range_query_three
    range_query_old_glass[of "[]" "Aware 1717977600000000" "Aware 1718020800000000"]
  by (simp add: instant_plastic house_def)

lemma dt_ge_same_kind:
  "is_naive a = is_naive b \<Longrightarrow> dt_ge a b = Inr (ticks b \<le> ticks a)"
  by (cases a; cases b) simp_all

lemma dt_lt_same_kind:
  "is_naive a = is_naive b \<Longrightarrow> dt_lt a b = Inr (ticks a < ticks b)"
  by (cases a; cases b) simp_all

lemma future_events_same_kind:
  "\<forall>e \<in> set evs. is_naive (start e) = is_naive now_dt \<Longrightarrow>
   future_events now_dt evs = Inr (filter (\<lambda>e. ticks now_dt \<le> ticks (start e)) evs)"
  by (induction evs) (simp_all add: dt_ge_same_kind)

lemma min_by_start_same_kind:
  "is_naive (start best) = k \<Longrightarrow> \<forall>e \<in> set es. is_naive (start e) = k \<Longrightarrow>
   \<exists>m. min_by_start best es = Inr m \<and> m \<in> set (best # es)
        \<and> (\<forall>e \<in> set (best # es). ticks (start m) \<le> ticks (start e))"
proof (induction es arbitrary: best)
  case Nil
  then show ?case by simp
next
  case (Cons x xs)
  let ?b = "if ticks (start x) < ticks (start best) then x else best"
  have k: "is_naive (start ?b) = k" using Cons.prems by simp
  have r: "\<forall>e \<in> set xs. is_naive (start e) = k" using Cons.prems by simp
  from Cons.IH[OF k r] obtain m where m: "min_by_start ?b xs = Inr m" "m \<in> set (?b # xs)"
    "\<forall>e \<in> set (?b # xs). ticks (start m) \<le> ticks (start e)" by blast
  have s: "min_by_start best (x # xs) = Inr m"
    using Cons.prems m(1) by (simp add: dt_lt_same_kind)
  from m(3) have le: "ticks (start m) \<le> ticks (start ?b)" by simp
  have "ticks (start m) \<le> ticks (start x)" "ticks (start m) \<le> ticks (start best)"
    using le by (simp_all split: if_splits)
  with m(3) have a: "\<forall>e \<in> set (best # x # xs). ticks (start m) \<le> ticks (start e)" by simp
  from m(2) have "m \<in> set (best # x # xs)" by (auto split: if_splits)
  with s a show ?case by blast
qed

lemma select_next_same_kind:
  assumes "\<forall>e \<in> set evs. is_naive (start e) = is_naive now_dt"
  shows "\<exists>r. select_next now_dt evs = Inr r \<and> is_next (ticks now_dt) evs r"
proof -
  let ?f = "filter (\<lambda>e. ticks now_dt \<le> ticks (start e)) evs"
  have f: "future_events now_dt evs = Inr ?f"
    using assms by (rule future_events_same_kind)
  show ?thesis
  proof (cases ?f)
    case Nil
    then have "\<forall>e \<in> set evs. ticks (start e) < ticks now_dt"
      by (auto simp: filter_empty_conv)
    with f Nil show ?thesis by (simp add: select_next_def is_next_def)
  next
    case (Cons x xs)
    have sub: "set (x # xs) = {e \<in> set evs. ticks now_dt \<le> ticks (start e)}"
      using Cons[symmetric] by simp
    then have kx: "is_naive (start x) = is_naive now_dt"
      and kxs: "\<forall>e \<in> set xs. is_naive (start e) = is_naive now_dt"
      using assms by auto
    from min_by_start_same_kind[OF kx kxs] obtain m where
      m: "min_by_start x xs = Inr m" "m \<in> set (x # xs)"
         "\<forall>e \<in> set (x # xs). ticks (start m) \<le> ticks (start e)" by blast
    from m(2) sub have m1: "m \<in> set evs" "ticks now_dt \<le> ticks (start m)" by auto
    from m(3) sub have m2: "\<forall>e \<in> set evs. ticks now_dt \<le> ticks (start e)
                              \<longrightarrow> ticks (start m) \<le> ticks (start e)" by auto
    from f Cons m(1) have "select_next now_dt evs = Inr (Some m)"
      by (simp add: select_next_def)
    with m1 m2 show ?thesis by (simp add: is_next_def)
  qed
qed

section \<open>The next event\<close>

text \<open>
  C5. The cache of an entity is empty or a list its builder has returned, so its starts are
  all aware in \<^verbatim>\<open>min_renovasjon_test\<close> and all naive in \<^verbatim>\<open>min_renovasjon\<close>. On such a
  cache the next-event selector returns without an exception, the entity is afterwards as
  it was before, and the answer is an event of the cache that starts at or after now and
  no later than any other such event, or nothing when no event of the cache starts at or
  after now. Now is the instant of \<^verbatim>\<open>as_utc(datetime.now())\<close> in \<^verbatim>\<open>min_renovasjon_test\<close>
  and the naive reading of \<^verbatim>\<open>datetime.now()\<close> in \<^verbatim>\<open>min_renovasjon\<close>.
\<close>

theorem next_event_is_earliest_upcoming:
  "((\<forall>e \<in> set (events self). \<not> is_naive (start e)) \<longrightarrow>
      (\<exists>r. get_next_event_test h self = (Inr r, self)
         \<and> is_next (instant h (Naive (now h))) (events self) r))
   \<and> ((\<forall>e \<in> set (events self'). is_naive (start e)) \<longrightarrow>
      (\<exists>r. get_next_event h self' = (Inr r, self')
         \<and> is_next (now h) (events self') r))
   \<and> (\<forall>built. fetch_events_test h self = Inr built \<longrightarrow>
         (\<forall>e \<in> set built. \<not> is_naive (start e)))
   \<and> (\<forall>built. fetch_events h self' = Inr built \<longrightarrow>
         (\<forall>e \<in> set built. is_naive (start e)))"
proof (intro conjI impI allI)
  assume "\<forall>e \<in> set (events self). \<not> is_naive (start e)"
  then have "\<forall>e \<in> set (events self). is_naive (start e) = is_naive (as_utc h (Naive (now h)))"
    by simp
  from select_next_same_kind[OF this] obtain r where
    "select_next (as_utc h (Naive (now h))) (events self) = Inr r"
    "is_next (ticks (as_utc h (Naive (now h)))) (events self) r" by blast
  then show "\<exists>r. get_next_event_test h self = (Inr r, self)
         \<and> is_next (instant h (Naive (now h))) (events self) r"
    by (simp add: get_next_event_test_def instant_def)
next
  assume "\<forall>e \<in> set (events self'). is_naive (start e)"
  then have "\<forall>e \<in> set (events self'). is_naive (start e) = is_naive (Naive (now h))"
    by simp
  from select_next_same_kind[OF this] obtain r where
    "select_next (Naive (now h)) (events self') = Inr r"
    "is_next (ticks (Naive (now h))) (events self') r" by blast
  then show "\<exists>r. get_next_event h self' = (Inr r, self') \<and> is_next (now h) (events self') r"
    by (simp add: get_next_event_def)
next
  fix built assume "fetch_events_test h self = Inr built"
  from fetch_events_test_shape[OF this] show "\<forall>e \<in> set built. \<not> is_naive (start e)"
    using day_event_test_aware by fastforce
next
  fix built assume "fetch_events h self' = Inr built"
  from fetch_events_empty[OF this] show "\<forall>e \<in> set built. is_naive (start e)"
    by simp
qed

lemma next_event_test_plastic:
  "get_next_event_test oslo
     ((house [plastic])\<lparr>events := [day_event_test oslo (PyStr ''Plastic'') 1717977600000000,
                                   day_event_test oslo (PyStr ''Plastic'') 1719187200000000]\<rparr>)
   = (Inr (Some (day_event_test oslo (PyStr ''Plastic'') 1717977600000000)),
      (house [plastic])\<lparr>events := [day_event_test oslo (PyStr ''Plastic'') 1717977600000000,
                                   day_event_test oslo (PyStr ''Plastic'') 1719187200000000]\<rparr>)"
  by (simp add: get_next_event_test_def select_next_def plastic_start_test oslo_simps)

lemma next_event_plastic:
  "get_next_event oslo
     ((house [plastic])\<lparr>events := [day_event oslo (PyStr ''Plastic'') 1717977600000000,
                                   day_event oslo (PyStr ''Plastic'') 1719187200000000]\<rparr>)
   = (Inr (Some (day_event oslo (PyStr ''Plastic'') 1717977600000000)),
      (house [plastic])\<lparr>events := [day_event oslo (PyStr ''Plastic'') 1717977600000000,
                                   day_event oslo (PyStr ''Plastic'') 1719187200000000]\<rparr>)"
  by (simp add: get_next_event_def select_next_def plastic_start oslo_simps)

theorem next_event_is_earliest_upcoming_witness:
  "get_next_event_test oslo
     ((house [plastic])\<lparr>events := [day_event_test oslo (PyStr ''Plastic'') 1717977600000000,
                                   day_event_test oslo (PyStr ''Plastic'') 1719187200000000]\<rparr>)
   = (Inr (Some (day_event_test oslo (PyStr ''Plastic'') 1717977600000000)),
      (house [plastic])\<lparr>events := [day_event_test oslo (PyStr ''Plastic'') 1717977600000000,
                                   day_event_test oslo (PyStr ''Plastic'') 1719187200000000]\<rparr>)
   \<and> is_next (instant oslo (Naive (now oslo)))
        [day_event_test oslo (PyStr ''Plastic'') 1717977600000000,
         day_event_test oslo (PyStr ''Plastic'') 1719187200000000]
        (Some (day_event_test oslo (PyStr ''Plastic'') 1717977600000000))
   \<and> get_next_event oslo
     ((house [plastic])\<lparr>events := [day_event oslo (PyStr ''Plastic'') 1717977600000000,
                                   day_event oslo (PyStr ''Plastic'') 1719187200000000]\<rparr>)
   = (Inr (Some (day_event oslo (PyStr ''Plastic'') 1717977600000000)),
      (house [plastic])\<lparr>events := [day_event oslo (PyStr ''Plastic'') 1717977600000000,
                                   day_event oslo (PyStr ''Plastic'') 1719187200000000]\<rparr>)
   \<and> is_next (now oslo)
        [day_event oslo (PyStr ''Plastic'') 1717977600000000,
         day_event oslo (PyStr ''Plastic'') 1719187200000000]
        (Some (day_event oslo (PyStr ''Plastic'') 1717977600000000))"
  using next_event_is_earliest_upcoming
    [of "(house [plastic])\<lparr>events := [day_event_test oslo (PyStr ''Plastic'') 1717977600000000,
                                       day_event_test oslo (PyStr ''Plastic'') 1719187200000000]\<rparr>"
        oslo
        "(house [plastic])\<lparr>events := [day_event oslo (PyStr ''Plastic'') 1717977600000000,
                                       day_event oslo (PyStr ''Plastic'') 1719187200000000]\<rparr>"]
  by (simp add: next_event_test_plastic next_event_plastic plastic_start_test plastic_start)

section \<open>The range query and the update\<close>

lemma fetch_events_test_cache: "fetch_events_test h (self\<lparr>events := old\<rparr>) = fetch_events_test h self"
  by (simp add: fetch_events_test_def fetch_events_try_def)

lemma fetch_events_cache: "fetch_events h (self\<lparr>events := old\<rparr>) = fetch_events h self"
  by (simp add: fetch_events_def)

lemma included_iff_shared_instant:
  assumes "instant h s \<le> instant h e" and "instant h (start ev) \<le> instant h (end' ev)"
  shows "included h s e ev \<longleftrightarrow>
         (\<exists>t. instant h s \<le> t \<and> t \<le> instant h e
              \<and> instant h (start ev) \<le> t \<and> t \<le> instant h (end' ev))"
proof
  assume "included h s e ev"
  then consider "instant h s \<le> instant h (start ev) \<and> instant h (start ev) \<le> instant h e"
    | "instant h s \<le> instant h (end' ev) \<and> instant h (end' ev) \<le> instant h e"
    | "instant h (start ev) \<le> instant h s \<and> instant h e \<le> instant h (end' ev)"
    by (auto simp: included_def)
  then show "\<exists>t. instant h s \<le> t \<and> t \<le> instant h e
              \<and> instant h (start ev) \<le> t \<and> t \<le> instant h (end' ev)"
  proof cases
    case 1
    with assms show ?thesis by (intro exI[of _ "instant h (start ev)"]) simp
  next
    case 2
    with assms show ?thesis by (intro exI[of _ "instant h (end' ev)"]) simp
  next
    case 3
    with assms show ?thesis by (intro exI[of _ "instant h s"]) simp
  qed
next
  assume "\<exists>t. instant h s \<le> t \<and> t \<le> instant h e
              \<and> instant h (start ev) \<le> t \<and> t \<le> instant h (end' ev)"
  then obtain t where "instant h s \<le> t" "t \<le> instant h e"
    "instant h (start ev) \<le> t" "t \<le> instant h (end' ev)" by blast
  then show "included h s e ev" unfolding included_def by linarith
qed

text \<open>
  C1. The range query returns exactly the built events that the inclusion rule admits, in
  their order: an event is returned if and only if it is a built event whose start falls
  within \<open>[start, end]\<close>, or whose end does, or which contains \<open>[start, end]\<close>, all four
  instants normalised by \<open>as_utc\<close>. For a range whose start is not after its end and an
  event whose start is not after its end, the rule holds exactly when the event and the
  range share an instant. \<^verbatim>\<open>min_renovasjon_test\<close> returns such a list on every call. In
  \<^verbatim>\<open>min_renovasjon\<close> the query returns a list only when the builder does, and then the
  built list and the returned list are both empty.
\<close>

theorem range_query_returns_overlapping_events:
  "(\<exists>built. fetch_events_test h self = Inr built
      \<and> fst (async_get_events_test h self s e) = Inr (filter (included h s e) built)
      \<and> (\<forall>ev. ev \<in> set (filter (included h s e) built) \<longleftrightarrow> ev \<in> set built \<and> included h s e ev))
   \<and> (\<forall>built. fetch_events h self' = Inr built \<longrightarrow>
        built = [] \<and> fst (async_get_events h self' s e) = Inr (filter (included h s e) built))
   \<and> (\<forall>ev. instant h s \<le> instant h e \<and> instant h (start ev) \<le> instant h (end' ev) \<longrightarrow>
        (included h s e ev \<longleftrightarrow>
           (\<exists>t. instant h s \<le> t \<and> t \<le> instant h e
                \<and> instant h (start ev) \<le> t \<and> t \<le> instant h (end' ev))))"
proof (intro conjI allI impI)
  obtain b where b: "fetch_events_test h self = Inr b"
    using fetch_events_test_total by blast
  then show "\<exists>built. fetch_events_test h self = Inr built
      \<and> fst (async_get_events_test h self s e) = Inr (filter (included h s e) built)
      \<and> (\<forall>ev. ev \<in> set (filter (included h s e) built) \<longleftrightarrow> ev \<in> set built \<and> included h s e ev)"
    by (simp add: async_get_events_test_eq in_range_included)
next
  fix built assume a: "fetch_events h self' = Inr built"
  then show "built = []" by (rule fetch_events_empty)
  from a show "fst (async_get_events h self' s e) = Inr (filter (included h s e) built)"
    by (simp add: async_get_events_eq in_range_included)
next
  fix ev :: calendar_event
  assume "instant h s \<le> instant h e \<and> instant h (start ev) \<le> instant h (end' ev)"
  then show "included h s e ev \<longleftrightarrow>
           (\<exists>t. instant h s \<le> t \<and> t \<le> instant h e
                \<and> instant h (start ev) \<le> t \<and> t \<le> instant h (end' ev))"
    by (simp add: included_iff_shared_instant)
qed

theorem range_query_returns_overlapping_events_witness:
  "fst (async_get_events_test oslo (house [plastic]) (Aware 1717977600000000) (Aware 1718020800000000))
     = Inr [day_event_test oslo (PyStr ''Plastic'') 1717977600000000]
   \<and> included oslo (Aware 1717977600000000) (Aware 1718020800000000)
        (day_event_test oslo (PyStr ''Plastic'') 1717977600000000)
   \<and> \<not> included oslo (Aware 1717977600000000) (Aware 1718020800000000)
        (day_event_test oslo (PyStr ''Plastic'') 1719187200000000)
   \<and> fetch_events oslo (house [old_glass]) = Inr []
   \<and> fst (async_get_events oslo (house [old_glass]) (Aware 1717977600000000) (Aware 1718020800000000))
     = Inr []"
  using range_query_returns_overlapping_events
    [of oslo "house [plastic]" "Aware 1717977600000000" "Aware 1718020800000000"
        "house [old_glass]"]
    fetch_test_plastic fetch_old_glass
  by (simp add: included_def instant_def plastic_start_test)

text \<open>
  C8, as the two components have it. Whenever the builder returns, the update leaves an
  entity that differs from the one before in its cached event list only, and the new list
  is the list the builder has just returned, whatever the cache held before. The builder of
  \<^verbatim>\<open>min_renovasjon_test\<close> always returns. When the builder of \<^verbatim>\<open>min_renovasjon\<close> raises,
  the update raises the same exception and the entity, its cache included, is as before.
\<close>

theorem update_replaces_cache:
  "(\<exists>built. fetch_events_test h self = Inr built
      \<and> (\<forall>old. async_update_test h (self\<lparr>events := old\<rparr>) = (Inr (), self\<lparr>events := built\<rparr>)))
   \<and> (\<forall>built. fetch_events h self = Inr built \<longrightarrow>
        (\<forall>old. async_update h (self\<lparr>events := old\<rparr>) = (Inr (), self\<lparr>events := built\<rparr>)))
   \<and> (\<forall>x. fetch_events h self = Inl x \<longrightarrow>
        (\<forall>old. async_update h (self\<lparr>events := old\<rparr>) = (Inl x, self\<lparr>events := old\<rparr>)))
   \<and> (\<forall>built. events (self\<lparr>events := built\<rparr>) = built
        \<and> hass (self\<lparr>events := built\<rparr>) = hass self
        \<and> min_renovasjon (self\<lparr>events := built\<rparr>) = min_renovasjon self
        \<and> name (self\<lparr>events := built\<rparr>) = name self
        \<and> config_entry (self\<lparr>events := built\<rparr>) = config_entry self)"
proof (intro conjI allI impI)
  obtain b where b: "fetch_events_test h self = Inr b"
    using fetch_events_test_total by blast
  then show "\<exists>built. fetch_events_test h self = Inr built
      \<and> (\<forall>old. async_update_test h (self\<lparr>events := old\<rparr>) = (Inr (), self\<lparr>events := built\<rparr>))"
    by (simp add: async_update_test_def fetch_events_test_cache)
next
  fix built old assume "fetch_events h self = Inr built"
  then show "async_update h (self\<lparr>events := old\<rparr>) = (Inr (), self\<lparr>events := built\<rparr>)"
    by (simp add: async_update_def fetch_events_cache)
next
  fix x old assume "fetch_events h self = Inl x"
  then show "async_update h (self\<lparr>events := old\<rparr>) = (Inl x, self\<lparr>events := old\<rparr>)"
    by (simp add: async_update_def fetch_events_cache)
qed simp_all

theorem update_replaces_cache_witness:
  "async_update_test oslo ((house [plastic])\<lparr>events := [day_event_test oslo (PyStr ''Glass'') 0]\<rparr>)
     = (Inr (), (house [plastic])\<lparr>events :=
          [day_event_test oslo (PyStr ''Plastic'') 1717977600000000,
           day_event_test oslo (PyStr ''Plastic'') 1719187200000000]\<rparr>)
   \<and> fetch_events oslo (house [old_glass]) = Inr []
   \<and> async_update oslo ((house [old_glass])\<lparr>events := [day_event oslo (PyStr ''Glass'') 0]\<rparr>)
     = (Inr (), (house [old_glass])\<lparr>events := []\<rparr>)
   \<and> fetch_events oslo broken_house = Inl OtherException
   \<and> async_update oslo (broken_house\<lparr>events := [day_event oslo (PyStr ''Glass'') 0]\<rparr>)
     = (Inl OtherException, broken_house\<lparr>events := [day_event oslo (PyStr ''Glass'') 0]\<rparr>)"
proof -
  have b: "fetch_events oslo broken_house = Inl OtherException"
    by (simp add: fetch_events_def oslo_simps broken_house_def)
  from update_replaces_cache[of oslo "house [plastic]"] update_replaces_cache[of oslo "house [old_glass]"]
    update_replaces_cache[of oslo broken_house] fetch_test_plastic fetch_old_glass b
  show ?thesis by simp
qed

text \<open>
  C8 as the specification states it fails in \<^verbatim>\<open>min_renovasjon\<close>: when the data source
  raises, the update does not replace the cache, which keeps the event it held.
\<close>

theorem failed_update_keeps_cache:
  "async_update oslo (broken_house\<lparr>events := [day_event oslo (PyStr ''Glass'') 0]\<rparr>)
     = (Inl OtherException, broken_house\<lparr>events := [day_event oslo (PyStr ''Glass'') 0]\<rparr>)
   \<and> events (snd (async_update oslo (broken_house\<lparr>events := [day_event oslo (PyStr ''Glass'') 0]\<rparr>)))
     = [day_event oslo (PyStr ''Glass'') 0]"
  by (simp add: async_update_def fetch_events_def oslo_simps broken_house_def)

text \<open>
  C9, as the two components have it. The range query fetches anew: whenever the builder
  returns, the list that is filtered is the list the builder has just returned, and after
  the call the cache is that list, whatever the cache held before; no other field of the
  entity changes. The builder of \<^verbatim>\<open>min_renovasjon_test\<close> always returns. When the builder
  of \<^verbatim>\<open>min_renovasjon\<close> raises, the range query raises the same exception and the cache
  is as before.
\<close>

theorem range_query_refreshes_cache:
  "(\<exists>built. fetch_events_test h self = Inr built
      \<and> (\<forall>old. async_get_events_test h (self\<lparr>events := old\<rparr>) s e
            = (Inr (filter (included h s e) built), self\<lparr>events := built\<rparr>)))
   \<and> (\<forall>built. fetch_events h self = Inr built \<longrightarrow>
        (\<forall>old. async_get_events h (self\<lparr>events := old\<rparr>) s e
            = (Inr (filter (included h s e) built), self\<lparr>events := built\<rparr>)))
   \<and> (\<forall>x. fetch_events h self = Inl x \<longrightarrow>
        (\<forall>old. async_get_events h (self\<lparr>events := old\<rparr>) s e = (Inl x, self\<lparr>events := old\<rparr>)))"
proof (intro conjI allI impI)
  obtain b where b: "fetch_events_test h self = Inr b"
    using fetch_events_test_total by blast
  have "\<forall>old. async_get_events_test h (self\<lparr>events := old\<rparr>) s e
            = (Inr (filter (included h s e) b), self\<lparr>events := b\<rparr>)"
  proof
    fix old
    have "fetch_events_test h (self\<lparr>events := old\<rparr>) = Inr b"
      using b by (simp add: fetch_events_test_cache)
    from async_get_events_test_eq[OF this, of s e]
    show "async_get_events_test h (self\<lparr>events := old\<rparr>) s e
            = (Inr (filter (included h s e) b), self\<lparr>events := b\<rparr>)"
      by (simp add: in_range_included)
  qed
  with b show "\<exists>built. fetch_events_test h self = Inr built
      \<and> (\<forall>old. async_get_events_test h (self\<lparr>events := old\<rparr>) s e
            = (Inr (filter (included h s e) built), self\<lparr>events := built\<rparr>))"
    by blast
next
  fix built old assume "fetch_events h self = Inr built"
  then have "fetch_events h (self\<lparr>events := old\<rparr>) = Inr built"
    by (simp add: fetch_events_cache)
  from async_get_events_eq[OF this, of s e]
  show "async_get_events h (self\<lparr>events := old\<rparr>) s e
            = (Inr (filter (included h s e) built), self\<lparr>events := built\<rparr>)"
    by (simp add: in_range_included)
next
  fix x old assume "fetch_events h self = Inl x"
  then have "fetch_events h (self\<lparr>events := old\<rparr>) = Inl x"
    by (simp add: fetch_events_cache)
  then show "async_get_events h (self\<lparr>events := old\<rparr>) s e = (Inl x, self\<lparr>events := old\<rparr>)"
    by (rule async_get_events_raises)
qed

theorem range_query_refreshes_cache_witness:
  "async_get_events_test oslo ((house [plastic])\<lparr>events := [day_event_test oslo (PyStr ''Glass'') 0]\<rparr>)
       (Aware 1717977600000000) (Aware 1718020800000000)
     = (Inr [day_event_test oslo (PyStr ''Plastic'') 1717977600000000],
        (house [plastic])\<lparr>events :=
          [day_event_test oslo (PyStr ''Plastic'') 1717977600000000,
           day_event_test oslo (PyStr ''Plastic'') 1719187200000000]\<rparr>)
   \<and> fetch_events oslo (house [old_glass]) = Inr []
   \<and> async_get_events oslo ((house [old_glass])\<lparr>events := [day_event oslo (PyStr ''Glass'') 0]\<rparr>)
       (Aware 1717977600000000) (Aware 1718020800000000)
     = (Inr [], (house [old_glass])\<lparr>events := []\<rparr>)
   \<and> fetch_events oslo broken_house = Inl OtherException
   \<and> async_get_events oslo (broken_house\<lparr>events := [day_event oslo (PyStr ''Glass'') 0]\<rparr>)
       (Aware 1717977600000000) (Aware 1718020800000000)
     = (Inl OtherException, broken_house\<lparr>events := [day_event oslo (PyStr ''Glass'') 0]\<rparr>)"
proof -
  have b: "fetch_events oslo broken_house = Inl OtherException"
    by (simp add: fetch_events_def oslo_simps broken_house_def)
  from range_query_refreshes_cache
         [of oslo "house [plastic]" "Aware 1717977600000000" "Aware 1718020800000000"]
       range_query_refreshes_cache
         [of oslo "house [old_glass]" "Aware 1717977600000000" "Aware 1718020800000000"]
       range_query_refreshes_cache
         [of oslo broken_house "Aware 1717977600000000" "Aware 1718020800000000"]
       fetch_test_plastic fetch_old_glass b
  show ?thesis by (simp add: included_def instant_def plastic_start_test)
qed

text \<open>
  C9 as the specification states it fails in \<^verbatim>\<open>min_renovasjon\<close>: when the data source
  raises, the range query returns no list and the cache is not replaced.
\<close>

theorem failed_range_query_keeps_cache:
  "async_get_events oslo (broken_house\<lparr>events := [day_event oslo (PyStr ''Glass'') 0]\<rparr>)
       (Aware 1717977600000000) (Aware 1718020800000000)
     = (Inl OtherException, broken_house\<lparr>events := [day_event oslo (PyStr ''Glass'') 0]\<rparr>)
   \<and> events (snd (async_get_events oslo
         (broken_house\<lparr>events := [day_event oslo (PyStr ''Glass'') 0]\<rparr>)
         (Aware 1717977600000000) (Aware 1718020800000000)))
     = [day_event oslo (PyStr ''Glass'') 0]"
  by (simp add: async_get_events_def fetch_events_def oslo_simps broken_house_def)

section \<open>Exceptions\<close>

lemma unpack5_errors: "unpack5 v = Inl x \<Longrightarrow> x = TypeError \<or> x = ValueError"
  by (cases v) (auto simp: unpack5_def split: list.splits)

lemma unpack5_arity: "length xs \<noteq> 5 \<Longrightarrow> unpack5 (PySeq xs) = Inl ValueError"
  by (auto simp: unpack5_def split: list.splits)

lemma entries_loop_test_skip_bad:
  assumes "unpack5 bad = Inl x"
  shows "entries_loop_test h evs (bad # ys) = entries_loop_test h evs ys"
proof (cases "bad = PyNone")
  case True
  then show ?thesis by simp
next
  case False
  have "process_entry_test h evs bad = (evs, Some x)"
    using assms by (simp add: process_entry_test_def)
  with False unpack5_errors[OF assms] show ?thesis by auto
qed

lemma entries_loop_test_skip_bad_at:
  assumes "unpack5 bad = Inl x"
  shows "entries_loop_test h evs (xs @ bad # ys) = entries_loop_test h evs (xs @ ys)"
proof (induction xs arbitrary: evs)
  case Nil
  show ?case using assms by (simp only: append_Nil entries_loop_test_skip_bad)
next
  case (Cons a xs)
  obtain r eo where p: "process_entry_test h evs a = (r, eo)"
    by (cases "process_entry_test h evs a")
  with Cons[of evs] Cons[of r] show ?case by (cases eo) simp_all
qed

lemma fetch_events_test_skip_bad:
  assumes g: "get_calendar_list h (min_renovasjon self) = Inr (PySeq (xs @ bad # ys))"
    and g': "get_calendar_list h (min_renovasjon self') = Inr (PySeq (xs @ ys))"
    and u: "unpack5 bad = Inl x"
  shows "fetch_events_test h self = fetch_events_test h self'"
proof -
  have l: "entries_loop_test h [] (xs @ bad # ys) = entries_loop_test h [] (xs @ ys)"
    using u by (rule entries_loop_test_skip_bad_at)
  have "fetch_events_try h self = fetch_events_try h self'"
  proof (cases "xs @ ys = []")
    case True
    with l have "entries_loop_test h [] (xs @ bad # ys) = Inr []" by simp
    with g g' True show ?thesis by (simp add: fetch_events_try_def)
  next
    case False
    with g g' l show ?thesis by (simp add: fetch_events_try_def)
  qed
  then show ?thesis by (simp add: fetch_events_test_def)
qed

text \<open>
  C4, as the two components have it. In \<^verbatim>\<open>min_renovasjon_test\<close> no method lets an exception
  out: the builder, the update and the range query give an empty list when the fetch or the
  construction raises, the next-event property gives nothing when the selection raises,
  and an entry that cannot be unpacked into five fields (a sequence of another length, or
  a value that is no sequence) is skipped while the entries before and after it are
  processed as without it. In \<^verbatim>\<open>min_renovasjon\<close> nothing is caught: an exception of the
  builder leaves the update and the range query with the entity as it was, and an
  exception of the selection leaves the next-event property.
\<close>

theorem exceptions_are_contained:
  "(\<exists>evs. fetch_events_test h self = Inr evs)
   \<and> fst (async_update_test h self) = Inr ()
   \<and> (\<exists>r. fst (async_get_events_test h self s e) = Inr r)
   \<and> (\<exists>r. fst (get_next_event_test h self) = Inr r)
   \<and> (\<forall>x. fetch_events_try h self = Inl x \<longrightarrow>
         fetch_events_test h self = Inr []
         \<and> async_update_test h self = (Inr (), self\<lparr>events := []\<rparr>)
         \<and> async_get_events_test h self s e = (Inr [], self\<lparr>events := []\<rparr>))
   \<and> (\<forall>x. select_next (as_utc h (Naive (now h))) (events self) = Inl x \<longrightarrow>
         get_next_event_test h self = (Inr None, self))
   \<and> (\<forall>xs bad ys x.
         get_calendar_list h (min_renovasjon self) = Inr (PySeq (xs @ bad # ys))
         \<and> get_calendar_list h (min_renovasjon self') = Inr (PySeq (xs @ ys))
         \<and> unpack5 bad = Inl x \<longrightarrow>
         fetch_events_test h self = fetch_events_test h self')
   \<and> (\<forall>xs. length xs \<noteq> 5 \<longrightarrow> unpack5 (PySeq xs) = Inl ValueError)
   \<and> (\<forall>i. unpack5 (PyInt i) = Inl TypeError)
   \<and> (\<forall>w. unpack5 (PyDatetime w) = Inl TypeError)
   \<and> (\<forall>x. fetch_events h self = Inl x \<longrightarrow>
         async_update h self = (Inl x, self)
         \<and> async_get_events h self s e = (Inl x, self))
   \<and> (\<forall>x. select_next (Naive (now h)) (events self) = Inl x \<longrightarrow>
         get_next_event h self = (Inl x, self))"
proof (intro conjI allI impI)
  show "\<exists>evs. fetch_events_test h self = Inr evs" by (rule fetch_events_test_total)
  show "fst (async_update_test h self) = Inr ()"
    by (cases "fetch_events_test h self") (simp_all add: async_update_test_def)
  show "\<exists>r. fst (async_get_events_test h self s e) = Inr r"
    by (cases "fetch_events_test h self") (simp_all add: async_get_events_test_def)
  show "\<exists>r. fst (get_next_event_test h self) = Inr r"
    by (cases "select_next (as_utc h (Naive (now h))) (events self)")
       (simp_all add: get_next_event_test_def)
next
  fix x assume a: "fetch_events_try h self = Inl x"
  then show t: "fetch_events_test h self = Inr []" by (simp add: fetch_events_test_def)
  then show "async_update_test h self = (Inr (), self\<lparr>events := []\<rparr>)"
    by (simp add: async_update_test_def)
  from t show "async_get_events_test h self s e = (Inr [], self\<lparr>events := []\<rparr>)"
    by (simp add: async_get_events_test_def)
next
  fix x assume "select_next (as_utc h (Naive (now h))) (events self) = Inl x"
  then show "get_next_event_test h self = (Inr None, self)"
    by (simp add: get_next_event_test_def)
next
  fix xs bad ys x
  assume "get_calendar_list h (min_renovasjon self) = Inr (PySeq (xs @ bad # ys))
         \<and> get_calendar_list h (min_renovasjon self') = Inr (PySeq (xs @ ys))
         \<and> unpack5 bad = Inl x"
  then show "fetch_events_test h self = fetch_events_test h self'"
    using fetch_events_test_skip_bad by blast
next
  fix xs :: "pyval list" assume "length xs \<noteq> 5"
  then show "unpack5 (PySeq xs) = Inl ValueError" by (rule unpack5_arity)
next
  fix i show "unpack5 (PyInt i) = Inl TypeError" by (simp add: unpack5_def)
next
  fix w show "unpack5 (PyDatetime w) = Inl TypeError" by (simp add: unpack5_def)
next
  fix x assume a: "fetch_events h self = Inl x"
  then show "async_update h self = (Inl x, self)" by (simp add: async_update_def)
  from a show "async_get_events h self s e = (Inl x, self)" by (simp add: async_get_events_def)
next
  fix x assume "select_next (Naive (now h)) (events self) = Inl x"
  then show "get_next_event h self = (Inl x, self)" by (simp add: get_next_event_def)
qed

lemma fetch_try_broken: "fetch_events_try oslo broken_house = Inl OtherException"
  by (simp add: fetch_events_try_def oslo_simps broken_house_def)

lemma fetch_broken: "fetch_events oslo broken_house = Inl OtherException"
  by (simp add: fetch_events_def oslo_simps broken_house_def)

theorem exceptions_are_contained_witness:
  "fetch_events_try oslo broken_house = Inl OtherException
   \<and> fetch_events_test oslo broken_house = Inr []
   \<and> async_update_test oslo broken_house = (Inr (), broken_house\<lparr>events := []\<rparr>)
   \<and> async_get_events_test oslo broken_house (Aware 0) (Aware 1)
       = (Inr [], broken_house\<lparr>events := []\<rparr>)
   \<and> unpack5 (PyInt 3) = Inl TypeError
   \<and> fetch_events_test oslo (house ([] @ PyInt 3 # [plastic])) = fetch_events_test oslo (house ([] @ [plastic]))
   \<and> fetch_events oslo broken_house = Inl OtherException
   \<and> async_update oslo broken_house = (Inl OtherException, broken_house)"
proof -
  have g: "get_calendar_list oslo (min_renovasjon (house ([] @ PyInt 3 # [plastic])))
             = Inr (PySeq ([] @ PyInt 3 # [plastic]))"
    by (simp add: oslo_simps house_simps)
  have g': "get_calendar_list oslo (min_renovasjon (house ([] @ [plastic])))
             = Inr (PySeq ([] @ [plastic]))"
    by (simp add: oslo_simps house_simps)
  have u: "unpack5 (PyInt 3) = Inl TypeError" by (simp add: unpack5_def)
  note t = exceptions_are_contained
    [of oslo broken_house "Aware 0" "Aware 1" "house ([] @ [plastic])"]
  note t' = exceptions_are_contained
    [of oslo "house ([] @ PyInt 3 # [plastic])" "Aware 0" "Aware 1" "house ([] @ [plastic])"]
  from t fetch_try_broken fetch_broken
  have a: "fetch_events_test oslo broken_house = Inr []
     \<and> async_update_test oslo broken_house = (Inr (), broken_house\<lparr>events := []\<rparr>)
     \<and> async_get_events_test oslo broken_house (Aware 0) (Aware 1)
         = (Inr [], broken_house\<lparr>events := []\<rparr>)
     \<and> async_update oslo broken_house = (Inl OtherException, broken_house)"
    by simp
  from t' g g' u
  have b: "fetch_events_test oslo (house ([] @ PyInt 3 # [plastic]))
             = fetch_events_test oslo (house ([] @ [plastic]))"
    by blast
  from a b u fetch_try_broken fetch_broken show ?thesis by simp
qed

text \<open>
  C4 as the specification states it fails in \<^verbatim>\<open>min_renovasjon\<close>: when the data source
  raises, the builder, the update and the range query raise too.
\<close>

theorem exception_reaches_host:
  "fetch_events oslo broken_house = Inl OtherException
   \<and> async_update oslo broken_house = (Inl OtherException, broken_house)
   \<and> async_get_events oslo broken_house (Aware 0) (Aware 1) = (Inl OtherException, broken_house)"
  by (simp add: fetch_broken async_update_def async_get_events_def)

text \<open>
  In \<^verbatim>\<open>min_renovasjon_test\<close> a date field of another type is not skipped with its entry:
  \<^verbatim>\<open>"2024-06-10".date()\<close> raises AttributeError, which the handler of the loop body does
  not name, so the outer handler ends the builder with an empty list and the entry after
  it gives no event.
\<close>

lemma wrong_typed_date_empties_batch:
  "fetch_events_test oslo
     (house [PySeq [PyStr ''glass'', PyStr ''Glass'', PyStr [], PyStr ''2024-06-10'', PyNone],
             plastic]) = Inr []
   \<and> fetch_events_test oslo (house [plastic]) =
     Inr [day_event_test oslo (PyStr ''Plastic'') 1717977600000000,
          day_event_test oslo (PyStr ''Plastic'') 1719187200000000]"
  by (simp add: fetch_test_plastic)
     (simp add: fetch_events_test_def fetch_events_try_def oslo_simps house_simps
        process_entry_test_def unpack5_def pickup_event_test_def)

end
